theory Spec2Isabelle
  imports Complex_Main
begin

section \<open>The price table\<close>

text \<open>
  The notebook \<^verbatim>\<open>exercise1.ipynb\<close> is a straight-line script over one pandas table:
  read the file, clean, derive columns, drop incomplete rows, scale, split, train.
  The model follows the cells in their order.

  A float cell is a real number or NaN (\<open>None\<close>).  Rounding and overflow are not
  modelled: every sum, mean and product below is the exact one.  A raw \<open>Date\<close> cell is
  represented by what \<^verbatim>\<open>pd.to_datetime\<close> makes of it: a missing cell (\<open>NaT\<close>), a text
  that is not a date (\<open>BadDate\<close>, on which the call raises), or a timestamp in seconds
  since 1970-01-01.  \<open>Extra\<close> holds the cells of the further columns of the file
  (\<open>None\<close> is an empty cell); the row filter looks at them too.  Volume is a float
  column, as in the data file of the notebook.
\<close>

type_synonym float64 = "real option"

datatype date_cell = NaT | BadDate | Stamp int

record price_record =
  Date :: date_cell
  Open :: float64
  High :: float64
  Low :: float64
  Close :: float64
  Volume :: float64
  Marketcap :: float64
  Extra :: "string option list"

text \<open>The exceptions a run of the notebook can end with.\<close>

datatype error = DateParseError | KeyError string | ValueError string | NameError string

subsection \<open>Float columns\<close>

text \<open>Arithmetic with NaN gives NaN; comparisons with NaN are false.\<close>

fun fsub :: "float64 \<Rightarrow> float64 \<Rightarrow> float64" where
  "fsub (Some a) (Some b) = Some (a - b)"
| "fsub _ _ = None"

fun fadd :: "float64 \<Rightarrow> float64 \<Rightarrow> float64" where
  "fadd (Some a) (Some b) = Some (a + b)"
| "fadd _ _ = None"

fun fmul :: "float64 \<Rightarrow> float64 \<Rightarrow> float64" where
  "fmul (Some a) (Some b) = Some (a * b)"
| "fmul _ _ = None"

fun float_gt0 :: "float64 \<Rightarrow> bool" where
  "float_gt0 (Some v) = (0 < v)"
| "float_gt0 None = False"

text \<open>
  A quotient of two floats is a number, an infinity (\<open>x / 0\<close> with \<open>x \<noteq> 0\<close>) or NaN
  (\<open>0 / 0\<close>, or a NaN operand).  The sign of an infinity is not recorded.  The quotient
  columns of the notebook are only multiplied by 100 and then read by the row filter,
  which keeps an infinity and drops a NaN.
\<close>

datatype ratio = Quot real | QInf | QNaN

fun fdiv :: "float64 \<Rightarrow> float64 \<Rightarrow> ratio" where
  "fdiv (Some a) (Some b) = (if b = 0 then (if a = 0 then QNaN else QInf) else Quot (a / b))"
| "fdiv _ _ = QNaN"

fun rsub1 :: "ratio \<Rightarrow> ratio" where
  "rsub1 (Quot q) = Quot (q - 1)"
| "rsub1 QInf = QInf"
| "rsub1 QNaN = QNaN"

fun rtimes100 :: "ratio \<Rightarrow> ratio" where
  "rtimes100 (Quot q) = Quot (q * 100)"
| "rtimes100 QInf = QInf"
| "rtimes100 QNaN = QNaN"

text \<open>The values of the cells that are not NaN, in order.\<close>

fun valid :: "'a option list \<Rightarrow> 'a list" where
  "valid [] = []"
| "valid (None # xs) = valid xs"
| "valid (Some v # xs) = v # valid xs"

text \<open>\<^verbatim>\<open>Series.mean()\<close>: NaN cells are skipped, the mean of no value is NaN.\<close>

definition series_mean :: "float64 list \<Rightarrow> float64" where
  "series_mean xs =
     (let vs = valid xs
      in if vs = [] then None else Some (sum_list vs / real (length vs)))"

section \<open>Cleaning\<close>

text \<open>
  \<^verbatim>\<open>
  non_zero_volumes = df[df['Volume'] > 0]['Volume']
  mean_volume = non_zero_volumes.mean()
  df.loc[df['Volume'] == 0, 'Volume'] = mean_volume
  \<close>
\<close>

definition non_zero_volumes :: "price_record list \<Rightarrow> float64 list" where
  "non_zero_volumes df = map Volume (filter (\<lambda>r. float_gt0 (Volume r)) df)"

definition mean_volume :: "price_record list \<Rightarrow> float64" where
  "mean_volume df = series_mean (non_zero_volumes df)"

definition impute_volume :: "price_record list \<Rightarrow> price_record list" where
  "impute_volume df =
     map (\<lambda>r. if Volume r = Some 0 then r\<lparr>Volume := mean_volume df\<rparr> else r) df"

text \<open>
  The mean in the words of the specification: the arithmetic mean of the strictly
  positive Volume values of the table, undefined when there is none.
\<close>

definition positive_volume_mean :: "price_record list \<Rightarrow> float64" where
  "positive_volume_mean df =
     (let pos = filter (\<lambda>v. 0 < v) (List.map_filter Volume df)
      in if pos = [] then None else Some (sum_list pos / real (length pos)))"

text \<open>
  \<^verbatim>\<open>df['Date'] = pd.to_datetime(df['Date'])\<close> raises on a text that is not a date
  and maps a missing cell to NaT.
\<close>

definition to_datetime :: "date_cell list \<Rightarrow> error + date_cell list" where
  "to_datetime col = (if BadDate \<in> set col then Inl DateParseError else Inr col)"

subsection \<open>Calendar fields\<close>

text \<open>
  The proleptic Gregorian date of a day number (days since 1970-01-01), as
  \<^verbatim>\<open>.dt.year\<close>, \<^verbatim>\<open>.dt.month\<close> and \<^verbatim>\<open>.dt.day\<close> give it.
\<close>

definition civil_from_days :: "int \<Rightarrow> int \<times> int \<times> int" where
  "civil_from_days z0 =
     (let z = z0 + 719468;
          era = z div 146097;
          doe = z - era * 146097;
          yoe = (doe - doe div 1460 + doe div 36524 - doe div 146096) div 365;
          doy = doe - (365 * yoe + yoe div 4 - yoe div 100);
          mp = (5 * doy + 2) div 153;
          d = doy - (153 * mp + 2) div 5 + 1;
          m = (if mp < 10 then mp + 3 else mp - 9)
      in (yoe + era * 400 + (if m \<le> 2 then 1 else 0), m, d))"

fun dt_year :: "date_cell \<Rightarrow> int option" where
  "dt_year (Stamp s) = Some (fst (civil_from_days (s div 86400)))"
| "dt_year _ = None"

fun dt_month :: "date_cell \<Rightarrow> int option" where
  "dt_month (Stamp s) = Some (fst (snd (civil_from_days (s div 86400))))"
| "dt_month _ = None"

fun dt_day :: "date_cell \<Rightarrow> int option" where
  "dt_day (Stamp s) = Some (snd (snd (civil_from_days (s div 86400))))"
| "dt_day _ = None"

text \<open>Monday is 0; 1970-01-01 was a Thursday.\<close>

fun dt_dayofweek :: "date_cell \<Rightarrow> int option" where
  "dt_dayofweek (Stamp s) = Some ((s div 86400 + 3) mod 7)"
| "dt_dayofweek _ = None"

text \<open>\<^verbatim>\<open>df['Date'].min()\<close> skips NaT; it is NaT when no date is left.\<close>

fun stamps :: "date_cell list \<Rightarrow> int list" where
  "stamps [] = []"
| "stamps (Stamp s # ds) = s # stamps ds"
| "stamps (_ # ds) = stamps ds"

definition date_min :: "date_cell list \<Rightarrow> date_cell" where
  "date_min ds = (case stamps ds of [] \<Rightarrow> NaT | s # ss \<Rightarrow> Stamp (fold min ss s))"

text \<open>\<^verbatim>\<open>(df['Date'] - df['Date'].min()).dt.days\<close>: the whole days of the difference.\<close>

fun days_since :: "date_cell \<Rightarrow> date_cell \<Rightarrow> int option" where
  "days_since (Stamp m) (Stamp s) = Some ((s - m) div 86400)"
| "days_since _ _ = None"

record dated_record = price_record +
  Year :: "int option"
  Month :: "int option"
  Day :: "int option"
  DayOfWeek :: "int option"
  DaysSinceStart :: "int option"

definition add_calendar :: "price_record list \<Rightarrow> dated_record list" where
  "add_calendar df =
     (let start = date_min (map Date df)
      in map (\<lambda>r. price_record.extend r
                (dated_record.fields (dt_year (Date r)) (dt_month (Date r)) (dt_day (Date r))
                   (dt_dayofweek (Date r)) (days_since start (Date r)))) df)"

text \<open>
  The cleaning cells in their order: volume imputation, date parsing, calendar fields.
  A malformed date ends the run after the imputation has been done.
\<close>

definition clean :: "price_record list \<Rightarrow> error + dated_record list" where
  "clean df0 =
     (let df = impute_volume df0
      in case to_datetime (map Date df) of
           Inl e \<Rightarrow> Inl e
         | Inr dates \<Rightarrow> Inr (add_calendar (map2 (\<lambda>r d. r\<lparr>Date := d\<rparr>) df dates)))"

section \<open>Feature engineering\<close>

text \<open>
  \<^verbatim>\<open>Series.shift(1)\<close> moves every cell one row down and puts NaN first;
  \<^verbatim>\<open>diff()\<close> is \<open>x - x.shift(1)\<close> and \<^verbatim>\<open>pct_change()\<close> is
  \<open>x / x.shift(1) - 1\<close> (no forward fill of missing cells is modelled).
\<close>

definition shift1 :: "'a option list \<Rightarrow> 'a option list" where
  "shift1 xs = (if xs = [] then [] else None # butlast xs)"

definition diff :: "float64 list \<Rightarrow> float64 list" where
  "diff xs = map2 fsub xs (shift1 xs)"

definition pct_change :: "float64 list \<Rightarrow> ratio list" where
  "pct_change xs = map rsub1 (map2 fdiv xs (shift1 xs))"

subsection \<open>Rolling mean\<close>

text \<open>
  \<^verbatim>\<open>df['Close'].rolling(window=w).mean()\<close> keeps a running sum and a count of the
  cells that are not NaN.  At row \<open>i\<close> the cell that leaves the window (row \<open>i - w\<close>) is
  removed, the cell of row \<open>i\<close> is added, and the output is \<open>sum / count\<close> when the
  count has reached \<open>min_periods\<close>, which is the window size, and NaN otherwise.
\<close>

fun add_mean :: "float64 \<Rightarrow> real \<times> nat \<Rightarrow> real \<times> nat" where
  "add_mean (Some v) (s, n) = (s + v, n + 1)"
| "add_mean None st = st"

fun remove_mean :: "float64 \<Rightarrow> real \<times> nat \<Rightarrow> real \<times> nat" where
  "remove_mean (Some v) (s, n) = (s - v, n - 1)"
| "remove_mean None st = st"

fun calc_mean :: "nat \<Rightarrow> real \<times> nat \<Rightarrow> float64" where
  "calc_mean minp (s, n) = (if minp \<le> n \<and> 0 < n then Some (s / real n) else None)"

definition roll_step ::
  "nat \<Rightarrow> float64 list \<Rightarrow> (real \<times> nat) \<times> float64 list \<Rightarrow> nat \<Rightarrow> (real \<times> nat) \<times> float64 list" where
  "roll_step w xs acc i =
     (let st0 = fst acc;
          st1 = (if w \<le> i then remove_mean (xs ! (i - w)) st0 else st0);
          st2 = add_mean (xs ! i) st1
      in (st2, snd acc @ [calc_mean w st2]))"

definition rolling_mean :: "nat \<Rightarrow> float64 list \<Rightarrow> float64 list" where
  "rolling_mean w xs = snd (foldl (roll_step w xs) ((0, 0), []) [0..<length xs])"

text \<open>
  The moving average in the words of the specification: the arithmetic mean of the
  cells of the \<open>w\<close> rows ending at row \<open>t\<close> inclusive.  The mean of cells of which one is
  NaN is NaN.
\<close>

definition trailing_window :: "nat \<Rightarrow> 'a list \<Rightarrow> nat \<Rightarrow> 'a list" where
  "trailing_window w xs t = take w (drop (t + 1 - w) xs)"

definition arithmetic_mean :: "float64 list \<Rightarrow> float64" where
  "arithmetic_mean cells =
     (case those cells of None \<Rightarrow> None
      | Some vs \<Rightarrow> Some (sum_list vs / real (length vs)))"

text \<open>
  The window the running state stands for after \<open>k\<close> rows, and the state it should
  hold; both are used in the proofs only.
\<close>

definition win :: "nat \<Rightarrow> float64 list \<Rightarrow> nat \<Rightarrow> float64 list" where
  "win w xs k = drop (k - w) (take k xs)"

definition wstate :: "nat \<Rightarrow> float64 list \<Rightarrow> nat \<Rightarrow> real \<times> nat" where
  "wstate w xs k = (sum_list (valid (win w xs k)), length (valid (win w xs k)))"

subsection \<open>The derived columns\<close>

text \<open>
  \<^verbatim>\<open>
  df['PriceChange'] = df['Close'].diff()
  df['PriceChangePercent'] = df['Close'].pct_change() * 100
  df['DailyRange'] = df['High'] - df['Low']
  df['DailyRangePercent'] = df['DailyRange'] / df['Open'] * 100
  \<close>
\<close>

record priced_record = dated_record +
  PriceChange :: float64
  PriceChangePercent :: ratio
  DailyRange :: float64
  DailyRangePercent :: ratio

definition add_price_features :: "dated_record list \<Rightarrow> priced_record list" where
  "add_price_features df =
     (let price_change = diff (map Close df);
          price_change_percent = map rtimes100 (pct_change (map Close df))
      in map (\<lambda>i. let r = df ! i;
                      daily_range = fsub (High r) (Low r)
                  in dated_record.extend r
                       (priced_record.fields (price_change ! i) (price_change_percent ! i)
                          daily_range (rtimes100 (fdiv daily_range (Open r)))))
           [0..<length df])"

text \<open>
  \<^verbatim>\<open>
  df['MA7'] = df['Close'].rolling(window=7).mean()
  df['MA30'] = df['Close'].rolling(window=30).mean()
  df['DistFromMA7'] = df['Close'] - df['MA7']
  df['DistFromMA7Percent'] = df['DistFromMA7'] / df['MA7'] * 100
  \<close>
\<close>

record feature_row = priced_record +
  MA7 :: float64
  MA30 :: float64
  DistFromMA7 :: float64
  DistFromMA7Percent :: ratio

definition add_moving_averages :: "priced_record list \<Rightarrow> feature_row list" where
  "add_moving_averages df =
     (let ma7 = rolling_mean 7 (map Close df);
          ma30 = rolling_mean 30 (map Close df)
      in map (\<lambda>i. let r = df ! i;
                      dist = fsub (Close r) (ma7 ! i)
                  in priced_record.extend r
                       (feature_row.fields (ma7 ! i) (ma30 ! i) dist
                          (rtimes100 (fdiv dist (ma7 ! i)))))
           [0..<length df])"

definition engineer :: "dated_record list \<Rightarrow> feature_row list" where
  "engineer df = add_moving_averages (add_price_features df)"

subsection \<open>The row filter\<close>

text \<open>
  \<^verbatim>\<open>df_clean = df.dropna()\<close> keeps the rows in which no cell of any column is
  missing.  An infinite quotient is not a missing cell.
\<close>

definition notna_row :: "feature_row \<Rightarrow> bool" where
  "notna_row r =
     (Date r \<noteq> NaT \<and> Open r \<noteq> None \<and> High r \<noteq> None \<and> Low r \<noteq> None \<and>
      Close r \<noteq> None \<and> Volume r \<noteq> None \<and> Marketcap r \<noteq> None \<and>
      None \<notin> set (Extra r) \<and>
      Year r \<noteq> None \<and> Month r \<noteq> None \<and> Day r \<noteq> None \<and> DayOfWeek r \<noteq> None \<and>
      DaysSinceStart r \<noteq> None \<and>
      PriceChange r \<noteq> None \<and> PriceChangePercent r \<noteq> QNaN \<and>
      DailyRange r \<noteq> None \<and> DailyRangePercent r \<noteq> QNaN \<and>
      MA7 r \<noteq> None \<and> MA30 r \<noteq> None \<and>
      DistFromMA7 r \<noteq> None \<and> DistFromMA7Percent r \<noteq> QNaN)"

definition dropna :: "feature_row list \<Rightarrow> feature_row list" where
  "dropna df = filter notna_row df"

text \<open>The table \<open>df\<close> after the last feature cell, and the usable table \<open>df_clean\<close>.\<close>

definition engineered :: "price_record list \<Rightarrow> error + feature_row list" where
  "engineered df0 = (case clean df0 of Inl e \<Rightarrow> Inl e | Inr df \<Rightarrow> Inr (engineer df))"

definition df_clean :: "price_record list \<Rightarrow> error + feature_row list" where
  "df_clean df0 = (case engineered df0 of Inl e \<Rightarrow> Inl e | Inr df \<Rightarrow> Inr (dropna df))"

text \<open>
  A row of the input as the data model of the specification has it: a parsed date,
  strictly positive Open and Close, and no missing cell.
\<close>

fun is_stamp :: "date_cell \<Rightarrow> bool" where
  "is_stamp (Stamp s) = True"
| "is_stamp _ = False"

definition well_formed :: "price_record \<Rightarrow> bool" where
  "well_formed r =
     (is_stamp (Date r) \<and> float_gt0 (Open r) \<and> High r \<noteq> None \<and> Low r \<noteq> None \<and>
      float_gt0 (Close r) \<and> Volume r \<noteq> None \<and> Marketcap r \<noteq> None \<and>
      None \<notin> set (Extra r))"

text \<open>The same of a row after cleaning; used in the proofs only.\<close>

definition dated_ok :: "dated_record \<Rightarrow> bool" where
  "dated_ok r =
     (is_stamp (Date r) \<and> float_gt0 (Open r) \<and> High r \<noteq> None \<and> Low r \<noteq> None \<and>
      float_gt0 (Close r) \<and> Volume r \<noteq> None \<and> Marketcap r \<noteq> None \<and>
      None \<notin> set (Extra r) \<and>
      Year r \<noteq> None \<and> Month r \<noteq> None \<and> Day r \<noteq> None \<and> DayOfWeek r \<noteq> None \<and>
      DaysSinceStart r \<noteq> None)"

section \<open>Scaling\<close>

text \<open>
  \<^verbatim>\<open>MinMaxScaler\<close> with its default range \<open>[0, 1]\<close>.  Fitting takes the minimum and
  the maximum of every column, NaN cells skipped; the factor of a column is
  \<open>1 / (max - min)\<close>, with a range below ten machine epsilons taken as 1 (a constant
  column), and the offset is \<open>0 - min * factor\<close>.  A matrix of no rows is refused.
\<close>

definition empty_array_error :: error where
  "empty_array_error =
     ValueError ''Found array with 0 sample(s) while a minimum of 1 is required by MinMaxScaler.''"

definition nanmin :: "float64 list \<Rightarrow> float64" where
  "nanmin col = (case valid col of [] \<Rightarrow> None | v # vs \<Rightarrow> Some (fold min vs v))"

definition nanmax :: "float64 list \<Rightarrow> float64" where
  "nanmax col = (case valid col of [] \<Rightarrow> None | v # vs \<Rightarrow> Some (fold max vs v))"

definition float_eps :: real where
  "float_eps = 1 / 2 ^ 52"

definition scale_of_range :: "float64 \<Rightarrow> float64" where
  "scale_of_range rng =
     (case rng of None \<Rightarrow> None
      | Some r \<Rightarrow> Some (1 / (if r < 10 * float_eps then 1 else r)))"

record scaler =
  data_min :: "float64 list"
  data_max :: "float64 list"
  scale :: "float64 list"
  min_offset :: "float64 list"

definition column :: "nat \<Rightarrow> float64 list list \<Rightarrow> float64 list" where
  "column j X = map (\<lambda>row. row ! j) X"

definition fit_params :: "nat \<Rightarrow> float64 list list \<Rightarrow> scaler" where
  "fit_params n_features X =
     (let cols = map (\<lambda>j. column j X) [0..<n_features];
          dmin = map nanmin cols;
          dmax = map nanmax cols;
          scl = map scale_of_range (map2 fsub dmax dmin)
      in \<lparr>data_min = dmin, data_max = dmax, scale = scl,
            min_offset = map2 (\<lambda>m s. fsub (Some 0) (fmul m s)) dmin scl\<rparr>)"

definition fit :: "float64 list list \<Rightarrow> error + scaler" where
  "fit X =
     (case X of
        [] \<Rightarrow> Inl empty_array_error
      | row # _ \<Rightarrow> Inr (fit_params (length row) X))"

text \<open>\<^verbatim>\<open>transform\<close> is \<open>x * scale + min\<close>, \<^verbatim>\<open>inverse_transform\<close> is \<open>(x - min) / scale\<close>.\<close>

definition transform_row :: "scaler \<Rightarrow> float64 list \<Rightarrow> float64 list" where
  "transform_row sc row = map2 fadd (map2 fmul row (scale sc)) (min_offset sc)"

definition transform :: "scaler \<Rightarrow> float64 list list \<Rightarrow> float64 list list" where
  "transform sc X = map (transform_row sc) X"

fun fquot :: "float64 \<Rightarrow> float64 \<Rightarrow> float64" where
  "fquot (Some a) (Some b) = Some (a / b)"
| "fquot _ _ = None"

definition inverse_transform_row :: "scaler \<Rightarrow> float64 list \<Rightarrow> float64 list" where
  "inverse_transform_row sc row = map2 fquot (map2 fsub row (min_offset sc)) (scale sc)"

definition inverse_transform :: "scaler \<Rightarrow> float64 list list \<Rightarrow> float64 list list" where
  "inverse_transform sc X = map (inverse_transform_row sc) X"

definition fit_transform :: "float64 list list \<Rightarrow> error + scaler \<times> float64 list list" where
  "fit_transform X = (case fit X of Inl e \<Rightarrow> Inl e | Inr sc \<Rightarrow> Inr (sc, transform sc X))"

text \<open>
  \<^verbatim>\<open>
  features = ['Open', 'High', 'Low', 'Volume', 'MA7', 'DailyRange',
              'Year', 'Month', 'DayOfWeek', 'DaysSinceStart']
  X = df_clean[features]
  y = df_clean['Close']
  \<close>
  \<open>numeric_column\<close> looks a float or integer column up by its name; an integer cell is
  read as a float.  The date, the further columns of the file and the three quotient
  columns, none of which the notebook selects, are not in its table.  Selecting a name
  that is no column raises \<open>KeyError\<close>.
\<close>

definition features :: "string list" where
  "features = [''Open'', ''High'', ''Low'', ''Volume'', ''MA7'', ''DailyRange'',
     ''Year'', ''Month'', ''DayOfWeek'', ''DaysSinceStart'']"

definition int_cell :: "int option \<Rightarrow> float64" where
  "int_cell c = map_option real_of_int c"

definition numeric_column :: "string \<Rightarrow> (feature_row \<Rightarrow> float64) option" where
  "numeric_column =
     map_of [(''Open'', Open), (''High'', High), (''Low'', Low), (''Close'', Close),
       (''Volume'', Volume), (''Marketcap'', Marketcap),
       (''Year'', \<lambda>r. int_cell (Year r)), (''Month'', \<lambda>r. int_cell (Month r)),
       (''Day'', \<lambda>r. int_cell (Day r)), (''DayOfWeek'', \<lambda>r. int_cell (DayOfWeek r)),
       (''DaysSinceStart'', \<lambda>r. int_cell (DaysSinceStart r)),
       (''PriceChange'', PriceChange), (''DailyRange'', DailyRange),
       (''MA7'', MA7), (''MA30'', MA30), (''DistFromMA7'', DistFromMA7)]"

fun lookup_columns :: "string list \<Rightarrow> error + (feature_row \<Rightarrow> float64) list" where
  "lookup_columns [] = Inr []"
| "lookup_columns (name # names) =
     (case numeric_column name of
        None \<Rightarrow> Inl (KeyError name)
      | Some g \<Rightarrow>
          (case lookup_columns names of Inl e \<Rightarrow> Inl e | Inr gs \<Rightarrow> Inr (g # gs)))"

definition select_columns :: "string list \<Rightarrow> feature_row list \<Rightarrow> error + float64 list list" where
  "select_columns names d =
     (case lookup_columns names of
        Inl e \<Rightarrow> Inl e
      | Inr gs \<Rightarrow> Inr (map (\<lambda>r. map (\<lambda>g. g r) gs) d))"

text \<open>The row of \<open>X\<close> that a row of \<open>df_clean\<close> gives, and the ten columns of \<open>X\<close>.\<close>

definition select_features :: "feature_row \<Rightarrow> float64 list" where
  "select_features r =
     [Open r, High r, Low r, Volume r, MA7 r, DailyRange r,
      int_cell (Year r), int_cell (Month r), int_cell (DayOfWeek r),
      int_cell (DaysSinceStart r)]"

definition feature_columns :: "feature_row list \<Rightarrow> float64 list list" where
  "feature_columns d =
     [map Open d, map High d, map Low d, map Volume d, map MA7 d, map DailyRange d,
      map (\<lambda>r. int_cell (Year r)) d, map (\<lambda>r. int_cell (Month r)) d,
      map (\<lambda>r. int_cell (DayOfWeek r)) d, map (\<lambda>r. int_cell (DaysSinceStart r)) d]"

text \<open>
  \<^verbatim>\<open>
  scaler_X = MinMaxScaler()
  scaler_y = MinMaxScaler()
  X_scaled = scaler_X.fit_transform(X)
  y_scaled = scaler_y.fit_transform(y.values.reshape(-1, 1)).flatten()
  \<close>
\<close>

record scaled_data =
  scaler_X :: scaler
  scaler_y :: scaler
  X_scaled :: "float64 list list"
  y_scaled :: "float64 list"

definition scaling_stage :: "feature_row list \<Rightarrow> error + scaled_data" where
  "scaling_stage d =
     (case select_columns features d of
        Inl e \<Rightarrow> Inl e
      | Inr X \<Rightarrow>
          (let y = map (\<lambda>r. [Close r]) d
           in case fit_transform X of
                Inl e \<Rightarrow> Inl e
              | Inr (sx, Xs) \<Rightarrow>
                  (case fit_transform y of
                     Inl e \<Rightarrow> Inl e
                   | Inr (sy, ys) \<Rightarrow>
                       Inr \<lparr>scaler_X = sx, scaler_y = sy, X_scaled = Xs,
                            y_scaled = concat ys\<rparr>)))"

text \<open>
  The single-sample inference input:
  \<^verbatim>\<open>
  sample_data = X[-1:].copy()
  sample_data_scaled = scaler_X.transform(sample_data)
  \<close>
  and the inversion of the test targets,
  \<^verbatim>\<open>y_test_original = scaler_y.inverse_transform(y_test.reshape(-1, 1))\<close>.
\<close>

definition sample_data :: "float64 list list \<Rightarrow> float64 list list" where
  "sample_data X = drop (length X - 1) X"

definition sample_data_scaled :: "scaled_data \<Rightarrow> float64 list list \<Rightarrow> float64 list list" where
  "sample_data_scaled sd X = transform (scaler_X sd) (sample_data X)"

definition y_test_original :: "scaled_data \<Rightarrow> float64 list \<Rightarrow> float64 list list" where
  "y_test_original sd y_test = inverse_transform (scaler_y sd) (map (\<lambda>v. [v]) y_test)"

section \<open>Train/test split\<close>

text \<open>
  \<^verbatim>\<open>train_test_split(X_scaled, y_scaled, test_size=0.2, random_state=42)\<close>.
  The test set has \<open>ceil(0.2 * n)\<close> rows and the training set the rest; an empty training
  set is refused.  The rows are chosen by a permutation of \<open>0..n-1\<close> drawn from the
  generator seeded with 42: the first \<open>n_test\<close> indices are the test rows, the next
  \<open>n_train\<close> the training rows.  As the seed is passed to the call, every call
  starts from a fresh generator, so the permutation depends on \<open>n\<close> alone.  The
  generator is not part of the notebook; its permutation of \<open>n\<close> indices is the
  parameter \<open>permutation\<close>.
\<close>

definition empty_train_error :: error where
  "empty_train_error = ValueError ''the resulting train set will be empty''"

definition split_indices :: "(nat \<Rightarrow> nat list) \<Rightarrow> nat \<Rightarrow> nat list \<times> nat list" where
  "split_indices permutation n_samples =
     (let n_test = nat \<lceil>0.2 * real n_samples\<rceil>;
          n_train = n_samples - n_test;
          p = permutation n_samples
      in (take n_train (drop n_test p), take n_test p))"

definition train_test_split ::
  "(nat \<Rightarrow> nat list) \<Rightarrow> 'a list \<Rightarrow> 'b list \<Rightarrow> error + 'a list \<times> 'a list \<times> 'b list \<times> 'b list" where
  "train_test_split permutation X y =
     (let n_samples = length X;
          n_test = nat \<lceil>0.2 * real n_samples\<rceil>;
          n_train = n_samples - n_test
      in if length y \<noteq> n_samples
         then Inl (ValueError ''Found input variables with inconsistent numbers of samples'')
         else if n_train = 0
         then Inl empty_train_error
         else (case split_indices permutation n_samples of
                 (train, test) \<Rightarrow>
                   Inr (map (nth X) train, map (nth X) test, map (nth y) train, map (nth y) test)))"

section \<open>The cells and their names\<close>

text \<open>
  A statement of a cell is the list of the global names it reads, in the order in which
  they are evaluated, and the list of the names it binds.  A read of a name that is not
  bound raises \<open>NameError\<close>.  In the only statement with an unbound name, the call of
  \<^verbatim>\<open>model.fit\<close>, the arguments are evaluated before the call, so the lookup fails
  before training starts.  Every code cell of the notebook is transcribed, statement by
  statement; the two cells that hold only a string literal have no statement.  The body
  of the one \<^verbatim>\<open>if\<close> (in the prediction plot) is listed after its condition.
\<close>

type_synonym stmt = "string list \<times> string list"

definition builtins :: "string list" where
  "builtins = [''print'', ''len'', ''abs'']"

definition exec_stmt :: "string list \<Rightarrow> stmt \<Rightarrow> error + string list" where
  "exec_stmt ns st =
     (case filter (\<lambda>n. n \<notin> set ns) (fst st) of
        [] \<Rightarrow> Inr (snd st @ ns)
      | n # _ \<Rightarrow> Inl (NameError n))"

fun exec_stmts :: "string list \<Rightarrow> stmt list \<Rightarrow> error + string list" where
  "exec_stmts ns [] = Inr ns"
| "exec_stmts ns (st # sts) =
     (case exec_stmt ns st of Inl e \<Rightarrow> Inl e | Inr ns' \<Rightarrow> exec_stmts ns' sts)"

definition cell_imports :: "stmt list" where
  "cell_imports =
     [([], [''pd'']), ([], [''np'']), ([], [''plt'']), ([], [''sns'']),
      ([], [''train_test_split'']), ([], [''MinMaxScaler'']), ([], [''metrics'']),
      ([], [''Sequential'']), ([], [''Dense'']),
      ([], [''ModelCheckpoint'', ''EarlyStopping'']), ([], [''Adam''])]"

definition cell_seed :: "stmt list" where
  "cell_seed = [([''np''], [])]"

definition cell_load :: "stmt list" where
  "cell_load =
     [([''pd''], [''df'']), ([''print'', ''df''], []), ([''print''], []),
      ([''print'', ''df''], [])]"

definition cell_missing :: "stmt list" where
  "cell_missing = [([''print''], []), ([''print'', ''df''], [])]"

definition cell_zero_volume :: "stmt list" where
  "cell_zero_volume =
     [([''df''], [''zero_volume_count'']),
      ([''print'', ''zero_volume_count'', ''zero_volume_count'', ''len'', ''df''], [])]"

definition cell_impute :: "stmt list" where
  "cell_impute =
     [([''df'', ''df''], [''non_zero_volumes'']),
      ([''non_zero_volumes''], [''mean_volume'']),
      ([''mean_volume'', ''df'', ''df''], []),
      ([''print'', ''mean_volume''], [])]"

definition cell_dates :: "stmt list" where
  "cell_dates =
     [([''pd'', ''df'', ''df''], []), ([''df'', ''df''], []), ([''df'', ''df''], []),
      ([''df'', ''df''], []), ([''df'', ''df''], [])]"

definition cell_days_since_start :: "stmt list" where
  "cell_days_since_start = [([''df'', ''df'', ''df''], [])]"

definition cell_price_features :: "stmt list" where
  "cell_price_features =
     [([''df'', ''df''], []), ([''df'', ''df''], []), ([''df'', ''df'', ''df''], []),
      ([''df'', ''df'', ''df''], [])]"

definition cell_moving_averages :: "stmt list" where
  "cell_moving_averages =
     [([''df'', ''df''], []), ([''df'', ''df''], []), ([''df'', ''df'', ''df''], []),
      ([''df'', ''df'', ''df''], [])]"

definition cell_dropna :: "stmt list" where
  "cell_dropna = [([''df''], [''df_clean'']), ([''print'', ''df_clean''], [])]"

definition cell_plot_price :: "stmt list" where
  "cell_plot_price =
     [([''plt''], []), ([''plt'', ''df_clean'', ''df_clean''], []), ([''plt''], []),
      ([''plt''], []), ([''plt''], []), ([''plt''], []), ([''plt''], [])]"

definition cell_correlation :: "stmt list" where
  "cell_correlation = [([''df_clean''], [''correlation_matrix''])]"

definition cell_heatmap :: "stmt list" where
  "cell_heatmap =
     [([''plt''], []), ([''sns'', ''correlation_matrix''], []), ([''plt''], []),
      ([''plt''], [])]"

definition cell_print_correlation :: "stmt list" where
  "cell_print_correlation = [([''print''], []), ([''print'', ''correlation_matrix''], [])]"

definition cell_scale :: "stmt list" where
  "cell_scale =
     [([], [''features'']), ([''df_clean'', ''features''], [''X'']),
      ([''df_clean''], [''y'']), ([''MinMaxScaler''], [''scaler_X'']),
      ([''MinMaxScaler''], [''scaler_y'']), ([''scaler_X'', ''X''], [''X_scaled'']),
      ([''scaler_y'', ''y''], [''y_scaled''])]"

definition cell_split :: "stmt list" where
  "cell_split =
     [([''train_test_split'', ''X_scaled'', ''y_scaled''],
       [''X_train'', ''X_test'', ''y_train'', ''y_test'']),
      ([''print'', ''X_train''], []), ([''print'', ''X_test''], [])]"

definition cell_model :: "stmt list" where
  "cell_model =
     [([''Sequential''], [''model'']), ([''model'', ''Dense'', ''X_train''], []),
      ([''model'', ''Dense''], []), ([''model'', ''Dense''], []), ([''model'', ''Dense''], []),
      ([''Adam''], [''optimizer'']), ([''model'', ''optimizer''], []), ([''model''], [])]"

definition cell_early_stop :: "stmt list" where
  "cell_early_stop = [([''EarlyStopping''], [''early_stop''])]"

text \<open>
  \<^verbatim>\<open>
  history = model.fit(X_train, y_train, validation_split=0.2, epochs=100,
      batch_size=32, callbacks=[checkpoint_callback, early_stop], verbose=1)
  \<close>
\<close>

definition cell_fit :: "stmt list" where
  "cell_fit =
     [([''model'', ''X_train'', ''y_train'', ''checkpoint_callback'', ''early_stop''],
       [''history''])]"

definition cell_plot_loss :: "stmt list" where
  "cell_plot_loss =
     [([''plt''], []), ([''plt''], []), ([''plt'', ''history''], []),
      ([''plt'', ''history''], []), ([''plt''], []), ([''plt''], []), ([''plt''], []),
      ([''plt''], [])]"

definition cell_plot_mae :: "stmt list" where
  "cell_plot_mae =
     [([''plt''], []), ([''plt'', ''history''], []), ([''plt'', ''history''], []),
      ([''plt''], []), ([''plt''], []), ([''plt''], []), ([''plt''], []), ([''plt''], [])]"

definition cell_evaluate :: "stmt list" where
  "cell_evaluate =
     [([''model'', ''X_test'', ''y_test''], [''test_loss'', ''test_mae'']),
      ([''print'', ''test_loss''], []), ([''print'', ''test_mae''], []),
      ([''model'', ''X_test''], [''y_pred_scaled'']),
      ([''scaler_y'', ''y_pred_scaled''], [''y_pred'']),
      ([''scaler_y'', ''y_test''], [''y_test_original'']),
      ([''metrics'', ''y_test_original'', ''y_pred''], [''mse'']),
      ([''np'', ''mse''], [''rmse'']),
      ([''metrics'', ''y_test_original'', ''y_pred''], [''mae'']),
      ([''metrics'', ''y_test_original'', ''y_pred''], [''r2'']),
      ([''print''], []), ([''print'', ''mse''], []), ([''print'', ''rmse''], []),
      ([''print'', ''mae''], []), ([''print'', ''r2''], [])]"

definition cell_plot_predictions :: "stmt list" where
  "cell_plot_predictions =
     [([''plt''], []), ([''np'', ''len'', ''y_test_original''], [''indices'']),
      ([''indices''], [''plot_indices'']), ([''len'', ''indices''], []),
      ([''np'', ''indices''], [''plot_indices'']), ([''plot_indices''], []),
      ([''plt'', ''indices'', ''plot_indices'', ''y_test_original'', ''plot_indices''], []),
      ([''plt'', ''indices'', ''plot_indices'', ''y_pred'', ''plot_indices''], []),
      ([''plt''], []), ([''plt''], []), ([''plt''], []), ([''plt''], []), ([''plt''], [])]"

definition cell_sample :: "stmt list" where
  "cell_sample =
     [([''X''], [''sample_data'']),
      ([''scaler_X'', ''sample_data''], [''sample_data_scaled'']),
      ([''model'', ''sample_data_scaled''], [''sample_prediction_scaled'']),
      ([''scaler_y'', ''sample_prediction_scaled''], [''sample_prediction'']),
      ([''df_clean''], [''actual_price'']),
      ([''print'', ''df_clean'', ''features''], []),
      ([''print'', ''sample_prediction''], []), ([''print'', ''actual_price''], []),
      ([''print'', ''abs'', ''sample_prediction'', ''actual_price''], []),
      ([''print'', ''abs'', ''sample_prediction'', ''actual_price'', ''actual_price''], [])]"

definition cells_before_fit :: "stmt list list" where
  "cells_before_fit =
     [cell_imports, cell_seed, cell_load, cell_missing, cell_zero_volume, cell_impute,
      cell_dates, cell_days_since_start, [], cell_price_features, cell_moving_averages,
      cell_dropna, cell_plot_price, cell_correlation, cell_heatmap, cell_print_correlation,
      cell_scale, cell_split, cell_model, cell_early_stop]"

definition cells_after_fit :: "stmt list list" where
  "cells_after_fit =
     [cell_plot_loss, cell_plot_mae, cell_evaluate, cell_plot_predictions, cell_sample, []]"

definition notebook :: "stmt list list" where
  "notebook = cells_before_fit @ [cell_fit] @ cells_after_fit"

definition bound_names :: "stmt list list \<Rightarrow> string list" where
  "bound_names cells = concat (map snd (concat cells))"

section \<open>A run from top to bottom\<close>

text \<open>
  A run takes the table that \<^verbatim>\<open>pd.read_csv\<close> returned.  Up to the training cell it
  can fail in the data (a malformed date, a matrix of no rows in the scaler, an empty
  training set in the split) or in a name.  The names of the cells before the training
  cell are resolved first and the data stages after them: these cells bind every name
  they read (lemma \<open>fit_cell_fails\<close>), so the order of the two checks does not show.
  Printing and plotting are taken not to fail.  The first failure ends the run; nothing
  in the notebook catches an exception.  \<open>Inr ()\<close> would mean that \<^verbatim>\<open>model.fit\<close> is
  entered; training itself is outside the model.
\<close>

type_synonym split_data =
  "float64 list list \<times> float64 list list \<times> float64 list \<times> float64 list"

definition before_training ::
  "(nat \<Rightarrow> nat list) \<Rightarrow> price_record list \<Rightarrow> error + string list \<times> split_data" where
  "before_training permutation table =
     (case exec_stmts builtins (concat cells_before_fit) of
        Inl e \<Rightarrow> Inl e
      | Inr ns \<Rightarrow>
     (case df_clean table of
        Inl e \<Rightarrow> Inl e
      | Inr d \<Rightarrow>
     (case scaling_stage d of
        Inl e \<Rightarrow> Inl e
      | Inr sd \<Rightarrow>
     (case train_test_split permutation (X_scaled sd) (y_scaled sd) of
        Inl e \<Rightarrow> Inl e
      | Inr split \<Rightarrow> Inr (ns, split)))))"

definition run_notebook :: "(nat \<Rightarrow> nat list) \<Rightarrow> price_record list \<Rightarrow> error + unit" where
  "run_notebook permutation table =
     (case before_training permutation table of
        Inl e \<Rightarrow> Inl e
      | Inr (ns, split) \<Rightarrow>
          (case exec_stmts ns cell_fit of Inl e \<Rightarrow> Inl e | Inr ns' \<Rightarrow> Inr ()))"

section \<open>Example tables\<close>

definition example_day :: "real \<Rightarrow> real \<Rightarrow> price_record" where
  "example_day c v =
     \<lparr>Date = Stamp 1367279999, Open = Some c, High = Some (c + 2), Low = Some (c - 1),
      Close = Some c, Volume = Some v, Marketcap = Some 1000, Extra = [Some ''Bitcoin'']\<rparr>"

definition example_week :: "dated_record list" where
  "example_week = add_calendar (map (\<lambda>c. example_day c 5) [1, 2, 3, 4, 5, 6, 7])"

definition example_row :: "real \<Rightarrow> feature_row" where
  "example_row c =
     \<lparr>Date = Stamp 1367279999, Open = Some c, High = Some (c + 2), Low = Some (c - 1),
      Close = Some c, Volume = Some 5, Marketcap = Some 1000, Extra = [Some ''Bitcoin''],
      Year = Some 2013, Month = Some 4, Day = Some 29, DayOfWeek = Some 0,
      DaysSinceStart = Some 29,
      PriceChange = Some 0, PriceChangePercent = Quot 0, DailyRange = Some 3,
      DailyRangePercent = Quot (300 / c),
      MA7 = Some c, MA30 = Some c, DistFromMA7 = Some 0, DistFromMA7Percent = Quot 0\<rparr>"

definition reversed_range :: "nat \<Rightarrow> nat list" where
  "reversed_range n = rev [0..<n]"

section \<open>Properties of the cleaning stage\<close>

lemma length_impute_volume: "length (impute_volume df) = length df"
  by (simp add: impute_volume_def)

lemma series_mean_all_defined:
  "series_mean (map Some vs) = (if vs = [] then None else Some (sum_list vs / real (length vs)))"
proof -
  have "valid (map Some vs) = vs"
    by (induction vs) simp_all
  then show ?thesis by (simp add: series_mean_def)
qed

lemma non_zero_volumes_eq:
  "non_zero_volumes df = map Some (filter (\<lambda>v. 0 < v) (List.map_filter Volume df))"
proof (induction df)
  case Nil
  show ?case by (simp add: non_zero_volumes_def)
next
  case (Cons r df)
  then show ?case
    by (cases "Volume r") (simp_all add: non_zero_volumes_def)
qed

lemma mean_volume_eq: "mean_volume df = positive_volume_mean df"
  by (simp add: mean_volume_def non_zero_volumes_eq series_mean_all_defined
      positive_volume_mean_def Let_def)

lemma to_datetime_ok: "BadDate \<notin> set col \<Longrightarrow> to_datetime col = Inr col"
  by (simp add: to_datetime_def)

lemma map2_date_same: "map2 (\<lambda>r d. r\<lparr>Date := d\<rparr>) df (map Date df) = df"
  by (induction df) simp_all

lemma to_datetime_impute:
  "to_datetime (map Date (impute_volume df)) =
     (if BadDate \<in> Date ` set df then Inl DateParseError
      else Inr (map Date (impute_volume df)))"
  by (simp add: to_datetime_def impute_volume_def image_iff)

lemma clean_ok:
  assumes "BadDate \<notin> Date ` set df"
  shows "clean df = Inr (add_calendar (impute_volume df))"
  unfolding clean_def Let_def to_datetime_impute
  using assms by (simp add: map2_date_same)

lemma clean_raises:
  assumes "BadDate \<in> Date ` set df"
  shows "clean df = Inl DateParseError"
  unfolding clean_def Let_def to_datetime_impute
  using assms by simp

lemma length_add_calendar: "length (add_calendar df) = length df"
  by (simp add: add_calendar_def)

lemma add_calendar_frame:
  "map Date (add_calendar df) = map Date df"
  "map Open (add_calendar df) = map Open df"
  "map High (add_calendar df) = map High df"
  "map Low (add_calendar df) = map Low df"
  "map Close (add_calendar df) = map Close df"
  "map Volume (add_calendar df) = map Volume df"
  "map Marketcap (add_calendar df) = map Marketcap df"
  "map Extra (add_calendar df) = map Extra df"
  by (simp_all add: add_calendar_def price_record.defs dated_record.defs)

lemma impute_volume_frame:
  "map Date (impute_volume df) = map Date df"
  "map Open (impute_volume df) = map Open df"
  "map High (impute_volume df) = map High df"
  "map Low (impute_volume df) = map Low df"
  "map Close (impute_volume df) = map Close df"
  "map Marketcap (impute_volume df) = map Marketcap df"
  "map Extra (impute_volume df) = map Extra df"
  by (simp_all add: impute_volume_def)

section \<open>The rolling mean computes the mean of the trailing window\<close>

lemma valid_snoc:
  "valid (l @ [x]) = valid l @ (case x of None \<Rightarrow> [] | Some v \<Rightarrow> [v])"
  by (induction l rule: valid.induct) (simp_all split: option.split)

lemma win_Suc_small:
  assumes "k < length xs" "k < w"
  shows "win w xs (Suc k) = win w xs k @ [xs ! k]"
  using assms by (simp add: win_def take_Suc_conv_app_nth)

lemma win_head:
  assumes "k < length xs" "w \<le> k" "0 < w"
  shows "win w xs k = xs ! (k - w) # drop (Suc k - w) (take k xs)"
proof -
  have "k - w < length (take k xs)" using assms by simp
  then have "take k xs ! (k - w) # drop (Suc (k - w)) (take k xs) = drop (k - w) (take k xs)"
    by (rule Cons_nth_drop_Suc)
  moreover have "take k xs ! (k - w) = xs ! (k - w)" using assms by simp
  moreover have "Suc (k - w) = Suc k - w" using assms by simp
  ultimately show ?thesis by (simp add: win_def)
qed

lemma win_Suc_large:
  assumes "k < length xs" "w \<le> k" "0 < w"
  shows "win w xs (Suc k) = drop (Suc k - w) (take k xs) @ [xs ! k]"
  using assms by (simp add: win_def take_Suc_conv_app_nth)

lemma add_mean_wstate:
  "add_mean x (sum_list (valid l), length (valid l)) =
   (sum_list (valid (l @ [x])), length (valid (l @ [x])))"
  by (cases x) (simp_all add: valid_snoc)

lemma remove_mean_wstate:
  "remove_mean x (sum_list (valid (x # l)), length (valid (x # l))) =
   (sum_list (valid l), length (valid l))"
  by (cases x) simp_all

lemma roll_state_step:
  assumes "k < length xs" "0 < w"
  shows "add_mean (xs ! k) (if w \<le> k then remove_mean (xs ! (k - w)) (wstate w xs k) else wstate w xs k)
         = wstate w xs (Suc k)"
proof (cases "w \<le> k")
  case True
  then show ?thesis
    using assms
    by (simp add: wstate_def win_head [OF assms(1) True assms(2)]
        win_Suc_large [OF assms(1) True assms(2)] remove_mean_wstate add_mean_wstate
       )
next
  case False
  then show ?thesis
    using assms by (simp add: wstate_def win_Suc_small add_mean_wstate)
qed

lemma roll_invariant:
  assumes "0 < w"
  shows "k \<le> length xs \<Longrightarrow>
         foldl (roll_step w xs) ((0, 0), []) [0..<k] =
           (wstate w xs k, map (\<lambda>t. calc_mean w (wstate w xs (Suc t))) [0..<k])"
proof (induction k)
  case 0
  show ?case by (simp add: wstate_def win_def)
next
  case (Suc k)
  then have k: "k < length xs" by simp
  with Suc have IH: "foldl (roll_step w xs) ((0, 0), []) [0..<k] =
           (wstate w xs k, map (\<lambda>t. calc_mean w (wstate w xs (Suc t))) [0..<k])" by simp
  have "foldl (roll_step w xs) ((0, 0), []) [0..<Suc k] =
          roll_step w xs (foldl (roll_step w xs) ((0, 0), []) [0..<k]) k"
    by simp
  also have "\<dots> = roll_step w xs
          (wstate w xs k, map (\<lambda>t. calc_mean w (wstate w xs (Suc t))) [0..<k]) k"
    by (simp only: IH)
  also have "\<dots> = (wstate w xs (Suc k),
          map (\<lambda>t. calc_mean w (wstate w xs (Suc t))) [0..<Suc k])"
    by (simp add: roll_step_def Let_def roll_state_step [OF k assms])
  finally show ?case .
qed

lemma rolling_mean_nth_state:
  assumes "0 < w" "t < length xs"
  shows "rolling_mean w xs ! t = calc_mean w (wstate w xs (Suc t))"
  using assms by (simp add: rolling_mean_def roll_invariant)

lemma length_valid_le: "length (valid l) \<le> length l"
  by (induction l rule: valid.induct) simp_all

lemma those_None_short: "those l = None \<Longrightarrow> length (valid l) < length l"
proof (induction l)
  case Nil
  then show ?case by simp
next
  case (Cons x l)
  show ?case
  proof (cases x)
    case None
    have "length (valid l) \<le> length l" by (rule length_valid_le)
    with None show ?thesis by simp
  next
    case (Some v)
    with Cons show ?thesis by (simp split: option.splits)
  qed
qed

lemma those_Some_all: "those l = Some vs \<Longrightarrow> valid l = vs \<and> length vs = length l"
  by (induction l arbitrary: vs) (auto split: option.splits)

lemma win_length: "Suc t \<le> length xs \<Longrightarrow> length (win w xs (Suc t)) = min w (Suc t)"
  by (simp add: win_def)

lemma win_trailing:
  "w \<le> Suc t \<Longrightarrow> win w xs (Suc t) = trailing_window w xs t"
  by (simp add: win_def trailing_window_def drop_take)

lemma rolling_mean_nth:
  assumes "0 < w" "t < length xs"
  shows "rolling_mean w xs ! t =
           (if t + 1 < w then None else arithmetic_mean (trailing_window w xs t))"
proof (cases "t + 1 < w")
  case True
  have "length (valid (win w xs (Suc t))) \<le> length (win w xs (Suc t))"
    by (rule length_valid_le)
  also have "\<dots> < w"
    using True assms by (simp add: win_length)
  finally show ?thesis
    using True assms by (simp add: rolling_mean_nth_state wstate_def)
next
  case False
  then have w: "w \<le> Suc t" by simp
  have len: "length (win w xs (Suc t)) = w"
    using w assms by (simp add: win_length)
  show ?thesis
  proof (cases "those (win w xs (Suc t))")
    case None
    from those_None_short [OF None] len
    have "length (valid (win w xs (Suc t))) < w" by simp
    with None False assms show ?thesis
      by (simp add: rolling_mean_nth_state wstate_def arithmetic_mean_def
          win_trailing [OF w, symmetric])
  next
    case (Some vs)
    from those_Some_all [OF Some] len
    have "valid (win w xs (Suc t)) = vs" "length vs = w" by simp_all
    with Some False assms show ?thesis
      by (simp add: rolling_mean_nth_state wstate_def arithmetic_mean_def
          win_trailing [OF w, symmetric])
  qed
qed

lemma length_rolling_mean: "0 < w \<Longrightarrow> length (rolling_mean w xs) = length xs"
  by (simp add: rolling_mean_def roll_invariant)

section \<open>The derived columns, row by row\<close>

lemma length_shift1: "length (shift1 xs) = length xs"
  by (cases xs rule: rev_cases) (simp_all add: shift1_def)

lemma shift1_nth:
  "i < length xs \<Longrightarrow> shift1 xs ! i = (if i = 0 then None else xs ! (i - 1))"
  by (cases i) (auto simp: shift1_def nth_butlast)

lemma diff_nth:
  "i < length xs \<Longrightarrow> diff xs ! i = (if i = 0 then None else fsub (xs ! i) (xs ! (i - 1)))"
  by (simp add: diff_def length_shift1 shift1_nth)

lemma length_diff: "length (diff xs) = length xs"
  by (simp add: diff_def length_shift1)

lemma pct_change_nth:
  "i < length xs \<Longrightarrow>
     pct_change xs ! i = (if i = 0 then QNaN else rsub1 (fdiv (xs ! i) (xs ! (i - 1))))"
  by (simp add: pct_change_def length_shift1 shift1_nth)

lemma length_pct_change: "length (pct_change xs) = length xs"
  by (simp add: pct_change_def length_shift1)

lemma length_add_price_features: "length (add_price_features df) = length df"
  by (simp add: add_price_features_def Let_def)

lemma length_add_moving_averages: "length (add_moving_averages df) = length df"
  by (simp add: add_moving_averages_def Let_def)

lemma length_engineer: "length (engineer df) = length df"
  by (simp add: engineer_def length_add_moving_averages length_add_price_features)

lemma add_price_features_nth:
  assumes "i < length df"
  shows "add_price_features df ! i =
           dated_record.extend (df ! i)
             (priced_record.fields
                (if i = 0 then None else fsub (Close (df ! i)) (Close (df ! (i - 1))))
                (rtimes100 (if i = 0 then QNaN
                   else rsub1 (fdiv (Close (df ! i)) (Close (df ! (i - 1))))))
                (fsub (High (df ! i)) (Low (df ! i)))
                (rtimes100 (fdiv (fsub (High (df ! i)) (Low (df ! i))) (Open (df ! i)))))"
  using assms
  by (simp add: add_price_features_def Let_def diff_nth pct_change_nth length_pct_change)

lemma map_Close_add_price_features: "map Close (add_price_features df) = map Close df"
  by (rule nth_equalityI)
     (simp_all add: length_add_price_features add_price_features_nth
        price_record.defs dated_record.defs priced_record.defs)

lemma add_moving_averages_nth:
  assumes "i < length df"
  shows "add_moving_averages df ! i =
           priced_record.extend (df ! i)
             (feature_row.fields (rolling_mean 7 (map Close df) ! i)
                (rolling_mean 30 (map Close df) ! i)
                (fsub (Close (df ! i)) (rolling_mean 7 (map Close df) ! i))
                (rtimes100 (fdiv (fsub (Close (df ! i)) (rolling_mean 7 (map Close df) ! i))
                   (rolling_mean 7 (map Close df) ! i))))"
  using assms by (simp add: add_moving_averages_def Let_def)

lemma trailing_window_map:
  "trailing_window w (map f df) t = map f (trailing_window w df t)"
  by (simp add: trailing_window_def take_map drop_map)

lemma MA7_engineer:
  assumes "t < length df"
  shows "MA7 (engineer df ! t) =
           (if t < 6 then None else arithmetic_mean (map Close (trailing_window 7 df t)))"
proof -
  have "MA7 (engineer df ! t) = rolling_mean 7 (map Close df) ! t"
    using assms
    by (simp add: engineer_def add_moving_averages_nth length_add_price_features
        map_Close_add_price_features price_record.defs dated_record.defs priced_record.defs
        feature_row.defs)
  also have "\<dots> = (if t < 6 then None
      else arithmetic_mean (trailing_window 7 (map Close df) t))"
    using assms by (simp add: rolling_mean_nth) 
  finally show ?thesis by (simp add: trailing_window_map)
qed

lemma MA30_engineer:
  assumes "t < length df"
  shows "MA30 (engineer df ! t) =
           (if t < 29 then None else arithmetic_mean (map Close (trailing_window 30 df t)))"
proof -
  have "MA30 (engineer df ! t) = rolling_mean 30 (map Close df) ! t"
    using assms
    by (simp add: engineer_def add_moving_averages_nth length_add_price_features
        map_Close_add_price_features price_record.defs dated_record.defs priced_record.defs
        feature_row.defs)
  also have "\<dots> = (if t < 29 then None
      else arithmetic_mean (trailing_window 30 (map Close df) t))"
    using assms by (simp add: rolling_mean_nth) 
  finally show ?thesis by (simp add: trailing_window_map)
qed

lemma engineer_nth:
  assumes "i < length df"
  shows "engineer df ! i =
           priced_record.extend (add_price_features df ! i)
             (feature_row.fields (rolling_mean 7 (map Close df) ! i)
                (rolling_mean 30 (map Close df) ! i)
                (fsub (Close (df ! i)) (rolling_mean 7 (map Close df) ! i))
                (rtimes100 (fdiv (fsub (Close (df ! i)) (rolling_mean 7 (map Close df) ! i))
                   (rolling_mean 7 (map Close df) ! i))))"
proof -
  have "Close (add_price_features df ! i) = Close (df ! i)"
    using assms
    by (simp add: add_price_features_nth price_record.defs dated_record.defs
        priced_record.defs)
  then show ?thesis
    using assms
    by (simp add: engineer_def add_moving_averages_nth length_add_price_features
        map_Close_add_price_features)
qed

lemma engineer_inherited:
  assumes "i < length df"
  shows "Date (engineer df ! i) = Date (df ! i)"
    "Open (engineer df ! i) = Open (df ! i)"
    "High (engineer df ! i) = High (df ! i)"
    "Low (engineer df ! i) = Low (df ! i)"
    "Close (engineer df ! i) = Close (df ! i)"
    "Volume (engineer df ! i) = Volume (df ! i)"
    "Marketcap (engineer df ! i) = Marketcap (df ! i)"
    "Extra (engineer df ! i) = Extra (df ! i)"
    "Year (engineer df ! i) = Year (df ! i)"
    "Month (engineer df ! i) = Month (df ! i)"
    "Day (engineer df ! i) = Day (df ! i)"
    "DayOfWeek (engineer df ! i) = DayOfWeek (df ! i)"
    "DaysSinceStart (engineer df ! i) = DaysSinceStart (df ! i)"
  using assms
  by (simp_all add: engineer_nth add_price_features_nth price_record.defs dated_record.defs
      priced_record.defs feature_row.defs)

lemma engineer_derived:
  assumes "i < length df"
  shows "PriceChange (engineer df ! i) =
           (if i = 0 then None else fsub (Close (df ! i)) (Close (df ! (i - 1))))"
    "PriceChangePercent (engineer df ! i) =
           rtimes100 (if i = 0 then QNaN
              else rsub1 (fdiv (Close (df ! i)) (Close (df ! (i - 1)))))"
    "DailyRange (engineer df ! i) = fsub (High (df ! i)) (Low (df ! i))"
    "DailyRangePercent (engineer df ! i) =
           rtimes100 (fdiv (fsub (High (df ! i)) (Low (df ! i))) (Open (df ! i)))"
    "DistFromMA7 (engineer df ! i) = fsub (Close (df ! i)) (MA7 (engineer df ! i))"
    "DistFromMA7Percent (engineer df ! i) =
           rtimes100 (fdiv (fsub (Close (df ! i)) (MA7 (engineer df ! i)))
              (MA7 (engineer df ! i)))"
  using assms
  by (simp_all add: engineer_nth add_price_features_nth price_record.defs dated_record.defs
      priced_record.defs feature_row.defs)

section \<open>Which rows the filter keeps\<close>

lemma sum_list_pos_real:
  fixes vs :: "real list"
  shows "\<forall>v\<in>set vs. 0 < v \<Longrightarrow> vs \<noteq> [] \<Longrightarrow> 0 < sum_list vs"
proof (induction vs)
  case Nil
  then show ?case by simp
next
  case (Cons v vs)
  show ?case
  proof (cases "vs = []")
    case True
    with Cons.prems show ?thesis by simp
  next
    case False
    with Cons have "0 < sum_list vs" by simp
    moreover from Cons.prems have "0 < v" by simp
    ultimately show ?thesis by simp
  qed
qed

lemma those_all_positive:
  "\<forall>c\<in>set cells. float_gt0 c \<Longrightarrow>
     \<exists>vs. those cells = Some vs \<and> (\<forall>v\<in>set vs. 0 < v) \<and> length vs = length cells"
proof (induction cells)
  case Nil
  show ?case by simp
next
  case (Cons c cells)
  then obtain vs where vs: "those cells = Some vs" "\<forall>v\<in>set vs. 0 < v"
    "length vs = length cells" by auto
  from Cons.prems obtain v where v: "c = Some v" "0 < v"
    by (cases c) auto
  show ?case
    using vs v by simp
qed

lemma arithmetic_mean_positive:
  assumes "\<forall>c\<in>set cells. float_gt0 c" "cells \<noteq> []"
  shows "\<exists>m. 0 < m \<and> arithmetic_mean cells = Some m"
proof -
  from those_all_positive [OF assms(1)] obtain vs where
    vs: "those cells = Some vs" "\<forall>v\<in>set vs. 0 < v" "length vs = length cells" by auto
  with assms(2) have ne: "vs \<noteq> []" by auto
  then have "0 < sum_list vs" using vs(2) by (simp add: sum_list_pos_real)
  moreover have "0 < real (length vs)" using ne by simp
  ultimately have "0 < sum_list vs / real (length vs)" by simp
  then show ?thesis using vs(1) by (simp add: arithmetic_mean_def)
qed

lemma trailing_window_subset: "set (trailing_window w xs t) \<subseteq> set xs"
  unfolding trailing_window_def
  by (meson set_take_subset set_drop_subset subset_trans)

lemma trailing_window_nonempty:
  "0 < w \<Longrightarrow> t < length xs \<Longrightarrow> trailing_window w xs t \<noteq> []"
  by (auto simp: trailing_window_def)

lemma MA7_positive:
  assumes "\<forall>r\<in>set df. float_gt0 (Close r)" "i < length df" "6 \<le> i"
  shows "\<exists>m. 0 < m \<and> MA7 (engineer df ! i) = Some m"
proof -
  have "\<forall>c\<in>set (map Close (trailing_window 7 df i)). float_gt0 c"
    using assms(1) trailing_window_subset [of 7 df i] by auto
  moreover have "map Close (trailing_window 7 df i) \<noteq> []"
    using assms(2) by (simp add: trailing_window_nonempty)
  ultimately obtain m where "0 < m" "arithmetic_mean (map Close (trailing_window 7 df i)) = Some m"
    using arithmetic_mean_positive by blast
  then show ?thesis
    using assms by (simp add: MA7_engineer)
qed

lemma MA30_defined:
  assumes "\<forall>r\<in>set df. float_gt0 (Close r)" "i < length df" "29 \<le> i"
  shows "MA30 (engineer df ! i) \<noteq> None"
proof -
  have "\<forall>c\<in>set (map Close (trailing_window 30 df i)). float_gt0 c"
    using assms(1) trailing_window_subset [of 30 df i] by auto
  moreover have "map Close (trailing_window 30 df i) \<noteq> []"
    using assms(2) by (simp add: trailing_window_nonempty)
  ultimately obtain m where "arithmetic_mean (map Close (trailing_window 30 df i)) = Some m"
    using arithmetic_mean_positive by blast
  then show ?thesis
    using assms by (simp add: MA30_engineer)
qed

lemma early_row_dropped:
  assumes "i < length df" "i < 29"
  shows "\<not> notna_row (engineer df ! i)"
  using assms by (simp add: notna_row_def MA30_engineer)

lemma late_row_kept:
  assumes ok: "\<forall>r\<in>set df. dated_ok r" and i: "i < length df" "29 \<le> i"
  shows "notna_row (engineer df ! i)"
proof -
  have cl: "\<forall>r\<in>set df. float_gt0 (Close r)"
    using ok by (simp add: dated_ok_def)
  have ri: "dated_ok (df ! i)" using ok i by simp
  have rp: "dated_ok (df ! (i - 1))" using ok i by simp
  obtain c where c: "Close (df ! i) = Some c" "0 < c"
    using ri by (cases "Close (df ! i)") (auto simp: dated_ok_def)
  obtain p where p: "Close (df ! (i - 1)) = Some p" "0 < p"
    using rp by (cases "Close (df ! (i - 1))") (auto simp: dated_ok_def)
  obtain opn where opn: "Open (df ! i) = Some opn" "0 < opn"
    using ri by (cases "Open (df ! i)") (auto simp: dated_ok_def)
  obtain h l where hl: "High (df ! i) = Some h" "Low (df ! i) = Some l"
    using ri by (auto simp: dated_ok_def)
  obtain m where m: "0 < m" "MA7 (engineer df ! i) = Some m"
    using MA7_positive [OF cl i(1)] i(2) by auto
  have ma30: "MA30 (engineer df ! i) \<noteq> None"
    using MA30_defined [OF cl i] .
  have inh: "Date (engineer df ! i) \<noteq> NaT" "Volume (engineer df ! i) \<noteq> None"
    "Marketcap (engineer df ! i) \<noteq> None" "None \<notin> set (Extra (engineer df ! i))"
    "Year (engineer df ! i) \<noteq> None" "Month (engineer df ! i) \<noteq> None"
    "Day (engineer df ! i) \<noteq> None" "DayOfWeek (engineer df ! i) \<noteq> None"
    "DaysSinceStart (engineer df ! i) \<noteq> None"
    using ri i(1) by (auto simp: engineer_inherited dated_ok_def)
  have der: "PriceChange (engineer df ! i) \<noteq> None"
    "PriceChangePercent (engineer df ! i) \<noteq> QNaN"
    "DailyRange (engineer df ! i) \<noteq> None"
    "DailyRangePercent (engineer df ! i) \<noteq> QNaN"
    "DistFromMA7 (engineer df ! i) \<noteq> None"
    "DistFromMA7Percent (engineer df ! i) \<noteq> QNaN"
    using i c p opn hl m by (simp_all add: engineer_derived)
  show ?thesis
    unfolding notna_row_def
    using inh der ma30 m c opn hl i(1) by (simp add: engineer_inherited)
qed

lemma filter_from_index:
  assumes "\<And>i. i < length xs \<Longrightarrow> P (xs ! i) = (k \<le> i)"
  shows "filter P xs = drop k xs"
proof -
  have "\<forall>x\<in>set (take k xs). \<not> P x"
  proof
    fix x assume "x \<in> set (take k xs)"
    then obtain j where "j < length (take k xs)" "x = take k xs ! j"
      by (auto simp: in_set_conv_nth)
    then show "\<not> P x" using assms [of j] by simp
  qed
  then have a: "filter P (take k xs) = []" by simp
  have "\<forall>x\<in>set (drop k xs). P x"
  proof
    fix x assume "x \<in> set (drop k xs)"
    then obtain j where "j < length (drop k xs)" "x = drop k xs ! j"
      by (auto simp: in_set_conv_nth)
    then show "P x" using assms [of "k + j"] by simp
  qed
  then have b: "filter P (drop k xs) = drop k xs" by simp
  have "filter P xs = filter P (take k xs @ drop k xs)" by simp
  also have "\<dots> = drop k xs" using a b by (simp only: filter_append append_Nil)
  finally show ?thesis .
qed

lemma dropna_engineer:
  assumes "\<forall>r\<in>set df. dated_ok r"
  shows "dropna (engineer df) = drop 29 (engineer df)"
  unfolding dropna_def
proof (rule filter_from_index)
  fix i assume "i < length (engineer df)"
  then have i: "i < length df" by (simp add: length_engineer)
  show "notna_row (engineer df ! i) = (29 \<le> i)"
    using early_row_dropped [OF i] late_row_kept [OF assms i] by (cases "29 \<le> i") auto
qed

lemma dropna_engineer_small:
  assumes "length df \<le> 29"
  shows "dropna (engineer df) = []"
proof -
  have "\<forall>x\<in>set (engineer df). \<not> notna_row x"
  proof
    fix x assume "x \<in> set (engineer df)"
    then obtain i where "i < length df" "x = engineer df ! i"
      by (auto simp: in_set_conv_nth length_engineer)
    then show "\<not> notna_row x" using assms early_row_dropped [of i df] by simp
  qed
  then show ?thesis by (simp add: dropna_def)
qed

section \<open>From the input table to the usable table\<close>

lemma valid_nonempty: "Some v \<in> set xs \<Longrightarrow> valid xs \<noteq> []"
  by (induction xs rule: valid.induct) auto

lemma mean_volume_defined:
  assumes "\<exists>r\<in>set df. float_gt0 (Volume r)"
  shows "mean_volume df \<noteq> None"
proof -
  from assms obtain r where r: "r \<in> set df" "float_gt0 (Volume r)" by auto
  then obtain v where v: "Volume r = Some v" by (cases "Volume r") auto
  have "Some v \<in> set (non_zero_volumes df)"
    using r v by (force simp: non_zero_volumes_def)
  then have "valid (non_zero_volumes df) \<noteq> []" by (rule valid_nonempty)
  then show ?thesis by (simp add: mean_volume_def series_mean_def Let_def)
qed

lemma mean_volume_all_zero:
  assumes "\<forall>r\<in>set df. Volume r = Some 0"
  shows "mean_volume df = None"
proof -
  have "filter (\<lambda>r. float_gt0 (Volume r)) df = []"
    using assms by (simp add: filter_empty_conv)
  then show ?thesis by (simp add: mean_volume_def non_zero_volumes_def series_mean_def)
qed

lemma stamps_nonempty: "Stamp s \<in> set ds \<Longrightarrow> stamps ds \<noteq> []"
  by (induction ds rule: stamps.induct) auto

lemma date_min_stamp: "Stamp s \<in> set ds \<Longrightarrow> is_stamp (date_min ds)"
  by (cases "stamps ds") (auto simp: date_min_def dest: stamps_nonempty)

lemma add_calendar_nth:
  assumes "i < length df"
  shows "add_calendar df ! i =
           price_record.extend (df ! i)
             (dated_record.fields (dt_year (Date (df ! i))) (dt_month (Date (df ! i)))
                (dt_day (Date (df ! i))) (dt_dayofweek (Date (df ! i)))
                (days_since (date_min (map Date df)) (Date (df ! i))))"
  using assms by (simp add: add_calendar_def)

lemma add_calendar_fields:
  assumes "i < length df"
  shows "Date (add_calendar df ! i) = Date (df ! i)"
    "Open (add_calendar df ! i) = Open (df ! i)"
    "High (add_calendar df ! i) = High (df ! i)"
    "Low (add_calendar df ! i) = Low (df ! i)"
    "Close (add_calendar df ! i) = Close (df ! i)"
    "Volume (add_calendar df ! i) = Volume (df ! i)"
    "Marketcap (add_calendar df ! i) = Marketcap (df ! i)"
    "Extra (add_calendar df ! i) = Extra (df ! i)"
    "Year (add_calendar df ! i) = dt_year (Date (df ! i))"
    "Month (add_calendar df ! i) = dt_month (Date (df ! i))"
    "Day (add_calendar df ! i) = dt_day (Date (df ! i))"
    "DayOfWeek (add_calendar df ! i) = dt_dayofweek (Date (df ! i))"
    "DaysSinceStart (add_calendar df ! i) = days_since (date_min (map Date df)) (Date (df ! i))"
  using assms
  by (simp_all add: add_calendar_nth price_record.defs dated_record.defs)

lemma impute_volume_nth:
  assumes "i < length df"
  shows "impute_volume df ! i =
           (if Volume (df ! i) = Some 0 then (df ! i)\<lparr>Volume := mean_volume df\<rparr> else df ! i)"
  using assms by (simp add: impute_volume_def)

lemma cleaned_rows_ok:
  assumes wf: "\<forall>r\<in>set df. well_formed r"
    and vol: "Some 0 \<in> Volume ` set df \<longrightarrow> (\<exists>r\<in>set df. float_gt0 (Volume r))"
  shows "\<forall>r\<in>set (add_calendar (impute_volume df)). dated_ok r"
proof
  fix r assume "r \<in> set (add_calendar (impute_volume df))"
  then obtain i where i: "i < length df" and r: "r = add_calendar (impute_volume df) ! i"
    by (auto simp: in_set_conv_nth length_add_calendar length_impute_volume)
  have i': "i < length (impute_volume df)" using i by (simp add: length_impute_volume)
  have q: "well_formed (df ! i)" using wf i by simp
  then obtain s where s: "Date (df ! i) = Stamp s"
    by (cases "Date (df ! i)") (auto simp: well_formed_def)
  have vdef: "Volume (impute_volume df ! i) \<noteq> None"
  proof (cases "Volume (df ! i) = Some 0")
    case True
    then have "Some 0 \<in> Volume ` set df" using i by (metis imageI nth_mem)
    with vol have "mean_volume df \<noteq> None" by (simp add: mean_volume_defined)
    with True i show ?thesis by (simp add: impute_volume_nth)
  next
    case False
    with q i show ?thesis by (simp add: impute_volume_nth well_formed_def)
  qed
  have same: "Date (impute_volume df ! i) = Date (df ! i)"
    "Open (impute_volume df ! i) = Open (df ! i)"
    "High (impute_volume df ! i) = High (df ! i)"
    "Low (impute_volume df ! i) = Low (df ! i)"
    "Close (impute_volume df ! i) = Close (df ! i)"
    "Marketcap (impute_volume df ! i) = Marketcap (df ! i)"
    "Extra (impute_volume df ! i) = Extra (df ! i)"
    using i by (simp_all add: impute_volume_nth)
  have "Stamp s \<in> set (map Date (impute_volume df))"
    using i s by (metis impute_volume_frame(1) length_map nth_map nth_mem)
  then have "is_stamp (date_min (map Date (impute_volume df)))" by (rule date_min_stamp)
  then obtain m where m: "date_min (map Date (impute_volume df)) = Stamp m"
    by (cases "date_min (map Date (impute_volume df))") auto
  show "dated_ok r"
    unfolding r dated_ok_def
    using q vdef s m by (simp add: add_calendar_fields [OF i'] same well_formed_def)
qed

lemma wf_no_bad_date:
  assumes "\<forall>r\<in>set df. well_formed r"
  shows "BadDate \<notin> Date ` set df"
proof
  assume "BadDate \<in> Date ` set df"
  then obtain r where "r \<in> set df" "Date r = BadDate" by auto
  with assms show False by (auto simp: well_formed_def)
qed

lemma engineered_ok:
  assumes "BadDate \<notin> Date ` set df"
  shows "engineered df = Inr (engineer (add_calendar (impute_volume df)))"
  using assms by (simp add: engineered_def clean_ok)

lemma df_clean_ok:
  assumes "BadDate \<notin> Date ` set df"
  shows "df_clean df = Inr (dropna (engineer (add_calendar (impute_volume df))))"
  using assms by (simp add: df_clean_def engineered_ok)

lemma df_clean_well_formed:
  assumes wf: "\<forall>r\<in>set df. well_formed r"
    and vol: "Some 0 \<in> Volume ` set df \<longrightarrow> (\<exists>r\<in>set df. float_gt0 (Volume r))"
  shows "df_clean df = Inr (drop 29 (engineer (add_calendar (impute_volume df))))"
  using df_clean_ok [OF wf_no_bad_date [OF wf]] dropna_engineer [OF cleaned_rows_ok [OF wf vol]]
  by simp

lemma df_clean_small:
  assumes "BadDate \<notin> Date ` set df" "length df \<le> 29"
  shows "df_clean df = Inr []"
  using assms
  by (simp add: df_clean_ok dropna_engineer_small length_add_calendar length_impute_volume)

lemma impute_all_zero:
  assumes "\<forall>r\<in>set df. Volume r = Some 0"
  shows "\<forall>r\<in>set (impute_volume df). Volume r = None"
  using assms by (simp add: impute_volume_def mean_volume_all_zero)

lemma df_clean_all_zero:
  assumes zero: "\<forall>r\<in>set df. Volume r = Some 0" and ok: "BadDate \<notin> Date ` set df"
  shows "df_clean df = Inr []"
proof -
  let ?d = "add_calendar (impute_volume df)"
  have "\<forall>x\<in>set (engineer ?d). \<not> notna_row x"
  proof
    fix x assume "x \<in> set (engineer ?d)"
    then obtain i where i: "i < length ?d" and x: "x = engineer ?d ! i"
      by (auto simp: in_set_conv_nth length_engineer)
    then have i': "i < length (impute_volume df)" by (simp add: length_add_calendar)
    then have "Volume (impute_volume df ! i) = None"
      using impute_all_zero [OF zero] by (metis nth_mem)
    then have "Volume x = None"
      using i i' by (simp add: x engineer_inherited add_calendar_fields)
    then show "\<not> notna_row x" by (simp add: notna_row_def)
  qed
  then have "dropna (engineer ?d) = []" by (simp add: dropna_def)
  then show ?thesis using ok by (simp add: df_clean_ok)
qed

section \<open>Names, scaling, split and the run\<close>

lemma fit_cell_fails:
  "(case exec_stmts builtins (concat cells_before_fit) of
      Inl e \<Rightarrow> False
    | Inr ns \<Rightarrow> exec_stmts ns cell_fit = Inl (NameError ''checkpoint_callback''))"
  by code_simp

text \<open>
  It is the only unbound name: were \<open>checkpoint_callback\<close> bound, every statement of
  every cell would find its names.
\<close>

lemma only_unbound_name:
  "(case exec_stmts (''checkpoint_callback'' # builtins) (concat notebook) of
      Inl e \<Rightarrow> False
    | Inr ns \<Rightarrow> True)"
  by code_simp

lemma names_before_fit:
  obtains ns where "exec_stmts builtins (concat cells_before_fit) = Inr ns"
    "exec_stmts ns cell_fit = Inl (NameError ''checkpoint_callback'')"
  using fit_cell_fails by (cases "exec_stmts builtins (concat cells_before_fit)") auto

lemma run_notebook_reached:
  assumes "before_training permutation table = Inr s"
  shows "run_notebook permutation table = Inl (NameError ''checkpoint_callback'')"
proof -
  obtain ns where ns: "exec_stmts builtins (concat cells_before_fit) = Inr ns"
    "exec_stmts ns cell_fit = Inl (NameError ''checkpoint_callback'')"
    by (rule names_before_fit)
  from assms have "fst s = ns"
    by (auto simp: before_training_def ns split: sum.splits)
  then show ?thesis
    using assms ns(2) by (cases s) (simp add: run_notebook_def)
qed

lemma run_notebook_not_reached:
  assumes "before_training permutation table = Inl e"
  shows "run_notebook permutation table = Inl e"
  using assms by (simp add: run_notebook_def)

lemma run_notebook_fails: "\<exists>e. run_notebook permutation table = Inl e"
proof (cases "before_training permutation table")
  case (Inl e)
  then show ?thesis by (simp add: run_notebook_not_reached)
next
  case (Inr s)
  then show ?thesis by (simp add: run_notebook_reached)
qed

lemma n_test_eq: "nat \<lceil>0.2 * real n\<rceil> = (n + 4) div 5"
  by linarith


lemma n_train_pos: "2 \<le> n \<Longrightarrow> 0 < n - nat \<lceil>0.2 * real n\<rceil>"
  by linarith

lemma n_train_zero: "n < 2 \<Longrightarrow> n - nat \<lceil>0.2 * real n\<rceil> = 0"
  by linarith


lemma fit_empty: "fit [] = Inl empty_array_error"
  by (simp add: fit_def)

lemma fit_nonempty: "X \<noteq> [] \<Longrightarrow> fit X = Inr (fit_params (length (hd X)) X)"
  by (cases X) (simp_all add: fit_def)

lemma length_fit_params:
  "length (data_min (fit_params n X)) = n"
  "length (data_max (fit_params n X)) = n"
  "length (scale (fit_params n X)) = n"
  "length (min_offset (fit_params n X)) = n"
  by (simp_all add: fit_params_def Let_def)

lemma length_transform: "length (transform sc X) = length X"
  by (simp add: transform_def)

lemma length_transform_row:
  "length (transform_row sc row) = min (length row) (min (length (scale sc)) (length (min_offset sc)))"
  by (simp add: transform_row_def)

lemma length_concat_singletons:
  "\<forall>x\<in>set xss. length x = 1 \<Longrightarrow> length (concat xss) = length xss"
  by (induction xss) simp_all

lemma lookup_features:
  "lookup_columns features =
     Inr [Open, High, Low, Volume, MA7, DailyRange, \<lambda>r. int_cell (Year r),
          \<lambda>r. int_cell (Month r), \<lambda>r. int_cell (DayOfWeek r),
          \<lambda>r. int_cell (DaysSinceStart r)]"
  by (simp add: features_def numeric_column_def)

lemma select_columns_features: "select_columns features d = Inr (map select_features d)"
  by (simp add: select_columns_def lookup_features select_features_def)

lemma scaling_stage_empty: "scaling_stage [] = Inl empty_array_error"
  by (simp add: scaling_stage_def select_columns_features fit_transform_def fit_empty)

lemma length_select_features: "length (select_features r) = 10"
  by (simp add: select_features_def)

lemma scaling_stage_nonempty:
  assumes "d \<noteq> []"
  shows "scaling_stage d =
           Inr \<lparr>scaler_X = fit_params 10 (map select_features d),
                scaler_y = fit_params 1 (map (\<lambda>r. [Close r]) d),
                X_scaled = transform (fit_params 10 (map select_features d))
                             (map select_features d),
                y_scaled = concat (transform (fit_params 1 (map (\<lambda>r. [Close r]) d))
                             (map (\<lambda>r. [Close r]) d))\<rparr>"
proof -
  obtain r rs where d: "d = r # rs" using assms by (cases d) auto
  have fx: "fit (map select_features d) = Inr (fit_params 10 (map select_features d))"
    by (simp add: d fit_def length_select_features)
  have fy: "fit (map (\<lambda>r. [Close r]) d) = Inr (fit_params 1 (map (\<lambda>r. [Close r]) d))"
    by (simp add: d fit_def)
  show ?thesis
    unfolding scaling_stage_def select_columns_features sum.case Let_def fit_transform_def fx fy
    by simp
qed

lemma length_y_scaled:
  assumes "\<forall>row\<in>set Y. length row = 1"
  shows "length (concat (transform (fit_params 1 Z) Y)) = length Y"
proof -
  have "\<forall>x\<in>set (transform (fit_params 1 Z) Y). length x = 1"
    using assms by (auto simp: transform_def length_transform_row length_fit_params)
  then have "length (concat (transform (fit_params 1 Z) Y)) =
      length (transform (fit_params 1 Z) Y)"
    by (rule length_concat_singletons)
  then show ?thesis by (simp add: length_transform)
qed

lemma scaled_lengths:
  assumes "d \<noteq> []" "scaling_stage d = Inr sd"
  shows "length (X_scaled sd) = length d" "length (y_scaled sd) = length d"
proof -
  have sd: "sd = \<lparr>scaler_X = fit_params 10 (map select_features d),
                scaler_y = fit_params 1 (map (\<lambda>r. [Close r]) d),
                X_scaled = transform (fit_params 10 (map select_features d))
                             (map select_features d),
                y_scaled = concat (transform (fit_params 1 (map (\<lambda>r. [Close r]) d))
                             (map (\<lambda>r. [Close r]) d))\<rparr>"
    using assms by (simp add: scaling_stage_nonempty)
  show "length (X_scaled sd) = length d"
    by (simp add: sd length_transform)
  have "length (concat (transform (fit_params 1 (map (\<lambda>r. [Close r]) d))
                             (map (\<lambda>r. [Close r]) d))) = length (map (\<lambda>r. [Close r]) d)"
    by (rule length_y_scaled) simp
  then show "length (y_scaled sd) = length d"
    by (simp add: sd)
qed

lemma scaling_stage_total:
  "d \<noteq> [] \<Longrightarrow> \<exists>sd. scaling_stage d = Inr sd"
  by (simp add: scaling_stage_nonempty)

lemma train_test_split_small:
  assumes "length X < 2" "length y = length X"
  shows "train_test_split permutation X y = Inl empty_train_error"
  using assms n_train_zero [of "length X"] by (simp add: train_test_split_def Let_def)

lemma train_test_split_ok:
  assumes "2 \<le> length X" "length y = length X"
  shows "train_test_split permutation X y =
           (case split_indices permutation (length X) of
              (train, test) \<Rightarrow>
                Inr (map (nth X) train, map (nth X) test, map (nth y) train, map (nth y) test))"
  using assms n_train_pos [of "length X"] by (simp add: train_test_split_def Let_def)

lemma before_training_outcome:
  "before_training permutation table =
     (case df_clean table of
        Inl e \<Rightarrow> Inl e
      | Inr d \<Rightarrow>
          if d = [] then Inl empty_array_error
          else if length d = 1 then Inl empty_train_error
          else before_training permutation table)"
proof (cases "df_clean table")
  case (Inl e)
  obtain ns where ns: "exec_stmts builtins (concat cells_before_fit) = Inr ns"
    "exec_stmts ns cell_fit = Inl (NameError ''checkpoint_callback'')"
    by (rule names_before_fit)
  show ?thesis by (simp add: Inl before_training_def ns)
next
  case (Inr d)
  obtain ns where ns: "exec_stmts builtins (concat cells_before_fit) = Inr ns"
    "exec_stmts ns cell_fit = Inl (NameError ''checkpoint_callback'')"
    by (rule names_before_fit)
  show ?thesis
  proof (cases "d = []")
    case True
    then show ?thesis by (simp add: Inr before_training_def ns scaling_stage_empty)
  next
    case False
    then obtain sd where sd: "scaling_stage d = Inr sd"
      using scaling_stage_total by blast
    note len = scaled_lengths [OF False sd]
    show ?thesis
    proof (cases "length d = 1")
      case True
      have "train_test_split permutation (X_scaled sd) (y_scaled sd) = Inl empty_train_error"
        by (rule train_test_split_small) (simp_all add: len True)
      then show ?thesis
        using False True by (simp add: Inr before_training_def ns sd)
    next
      case False
      then show ?thesis using \<open>d \<noteq> []\<close> by (simp add: Inr)
    qed
  qed
qed

lemma before_training_ok:
  assumes "df_clean table = Inr d" "2 \<le> length d"
  shows "\<exists>s. before_training permutation table = Inr s"
proof -
  obtain ns where ns: "exec_stmts builtins (concat cells_before_fit) = Inr ns"
    "exec_stmts ns cell_fit = Inl (NameError ''checkpoint_callback'')"
    by (rule names_before_fit)
  have ne: "d \<noteq> []" using assms(2) by auto
  then obtain sd where sd: "scaling_stage d = Inr sd"
    using scaling_stage_total by blast
  note len = scaled_lengths [OF ne sd]
  have "2 \<le> length (X_scaled sd)" "length (y_scaled sd) = length (X_scaled sd)"
    using assms(2) len by simp_all
  then have "\<exists>sp. train_test_split permutation (X_scaled sd) (y_scaled sd) = Inr sp"
    by (simp add: train_test_split_ok split: prod.splits)
  then show ?thesis
    by (auto simp: assms(1) before_training_def ns sd)
qed

lemma run_notebook_degenerate:
  assumes "df_clean table = Inr []"
  shows "run_notebook permutation table = Inl empty_array_error"
proof -
  have "before_training permutation table = Inl empty_array_error"
    using before_training_outcome [of permutation table] assms by simp
  then show ?thesis by (rule run_notebook_not_reached)
qed

lemma upt_10: "[0..<10] = [0, 1, 2, 3, 4, 5, 6, 7, 8, 9]"
  by (simp add: upt_rec)

lemma selected_columns:
  "map (\<lambda>j. column j (map select_features d)) [0..<10] = feature_columns d"
  by (simp add: upt_10 column_def select_features_def feature_columns_def)

lemma fit_params_features:
  "data_min (fit_params 10 (map select_features d)) = map nanmin (feature_columns d)"
  "data_max (fit_params 10 (map select_features d)) = map nanmax (feature_columns d)"
  "scale (fit_params 10 (map select_features d)) =
     map scale_of_range
       (map2 fsub (map nanmax (feature_columns d)) (map nanmin (feature_columns d)))"
  using selected_columns [of d]
  by (simp_all add: fit_params_def Let_def del: upt.simps map_map)

lemma sample_is_last_row:
  assumes "X \<noteq> []"
  shows "transform sc (drop (length X - 1) X) = [last (transform sc X)]"
proof -
  have "drop (length (butlast X)) (butlast X @ [last X]) = [last X]"
    by simp
  moreover have "butlast X @ [last X] = X"
    using assms by (rule append_butlast_last_id)
  ultimately have "drop (length X - 1) X = [last X]"
    by (simp only: length_butlast)
  then show ?thesis
    using assms by (simp add: transform_def last_map)
qed

section \<open>The scaler in exact arithmetic\<close>

lemma valid_all_defined: "None \<notin> set col \<Longrightarrow> col \<noteq> [] \<Longrightarrow> valid col \<noteq> []"
  by (induction col rule: valid.induct) auto

lemma nanmin_defined:
  assumes "None \<notin> set col" "col \<noteq> []"
  shows "\<exists>a. nanmin col = Some a"
  using valid_all_defined [OF assms] by (cases "valid col") (simp_all add: nanmin_def)

lemma nanmax_defined:
  assumes "None \<notin> set col" "col \<noteq> []"
  shows "\<exists>b. nanmax col = Some b"
  using valid_all_defined [OF assms] by (cases "valid col") (simp_all add: nanmax_def)

lemma scale_of_range_nonzero: "\<exists>s. scale_of_range (Some r) = Some s \<and> s \<noteq> 0"
proof (cases "r < 10 * float_eps")
  case True
  then show ?thesis by (simp add: scale_of_range_def)
next
  case False
  have "0 < float_eps" by (simp add: float_eps_def)
  with False have "0 < r" by linarith
  with False show ?thesis by (simp add: scale_of_range_def)
qed

lemma fit_params_nth:
  assumes "j < n"
  shows "data_min (fit_params n X) ! j = nanmin (column j X)"
    "data_max (fit_params n X) ! j = nanmax (column j X)"
    "scale (fit_params n X) ! j =
       scale_of_range (fsub (nanmax (column j X)) (nanmin (column j X)))"
    "min_offset (fit_params n X) ! j =
       fsub (Some 0) (fmul (nanmin (column j X))
         (scale_of_range (fsub (nanmax (column j X)) (nanmin (column j X)))))"
  using assms by (simp_all add: fit_params_def Let_def)

lemma column_defined:
  assumes "\<forall>row\<in>set X. length row = n \<and> None \<notin> set row" "j < n"
  shows "None \<notin> set (column j X)"
proof
  assume "None \<in> set (column j X)"
  then obtain row where row: "row \<in> set X" "row ! j = None"
    by (auto simp: column_def)
  with assms have "j < length row" "None \<notin> set row" by auto
  with row(2) show False by (metis nth_mem)
qed

lemma scaler_cell_round_trip:
  assumes "s \<noteq> 0"
  shows "fquot (fsub (fadd (fmul (Some x) (Some s)) (fsub (Some 0) (fmul (Some a) (Some s))))
           (fsub (Some 0) (fmul (Some a) (Some s)))) (Some s) = Some x"
  using assms by simp

lemma min_max_round_trip:
  assumes X: "X \<noteq> []" "\<forall>row\<in>set X. length row = n \<and> None \<notin> set row"
    and row: "length row = n" "None \<notin> set row"
  shows "inverse_transform_row (fit_params n X) (transform_row (fit_params n X) row) = row"
proof (rule nth_equalityI)
  show "length (inverse_transform_row (fit_params n X) (transform_row (fit_params n X) row)) =
      length row"
    using row(1)
    by (simp add: inverse_transform_row_def transform_row_def length_fit_params)
next
  fix j
  assume "j < length (inverse_transform_row (fit_params n X)
      (transform_row (fit_params n X) row))"
  then have j: "j < n"
    by (simp add: inverse_transform_row_def transform_row_def length_fit_params)
  have col: "None \<notin> set (column j X)" using X(2) j by (rule column_defined)
  have ne: "column j X \<noteq> []" using X(1) by (simp add: column_def)
  obtain a where a: "nanmin (column j X) = Some a" using nanmin_defined [OF col ne] by auto
  obtain b where b: "nanmax (column j X) = Some b" using nanmax_defined [OF col ne] by auto
  obtain s where s: "scale_of_range (Some (b - a)) = Some s" "s \<noteq> 0"
    using scale_of_range_nonzero by blast
  obtain x where x: "row ! j = Some x"
    using row j by (metis not_None_eq nth_mem)
  show "inverse_transform_row (fit_params n X) (transform_row (fit_params n X) row) ! j =
      row ! j"
    using j row(1) s(2)
    by (simp add: inverse_transform_row_def transform_row_def length_fit_params
        fit_params_nth a b s(1) x)
qed

lemma singleton_rows: "\<forall>x\<in>set xss. length x = 1 \<Longrightarrow> map (\<lambda>v. [v]) (concat xss) = xss"
proof (induction xss)
  case Nil
  show ?case by simp
next
  case (Cons x xss)
  then obtain v where "x = [v]" by (cases x) auto
  with Cons show ?case by simp
qed

lemma inverse_of_transform:
  assumes "Y \<noteq> []" "\<forall>row\<in>set Y. length row = n \<and> None \<notin> set row"
  shows "inverse_transform (fit_params n Y) (transform (fit_params n Y) Y) = Y"
proof -
  have "\<forall>row\<in>set Y. inverse_transform_row (fit_params n Y)
      (transform_row (fit_params n Y) row) = row"
    using assms by (simp add: min_max_round_trip)
  then show ?thesis
    by (simp add: inverse_transform_def transform_def map_idI)
qed

text \<open>
  In exact arithmetic the target scaler inverts its own transform exactly: on a usable
  table (at least one row, every Close defined) the inversion of the scaled targets,
  as the evaluation cell computes \<open>y_test_original\<close>, gives back the Close column.
\<close>

theorem target_round_trip:
  assumes "d \<noteq> []" "\<forall>r\<in>set d. Close r \<noteq> None" "scaling_stage d = Inr sd"
  shows "y_test_original sd (y_scaled sd) = map (\<lambda>r. [Close r]) d"
proof -
  let ?Y = "map (\<lambda>r. [Close r]) d"
  let ?sy = "fit_params 1 ?Y"
  have sd: "scaler_y sd = ?sy" "y_scaled sd = concat (transform ?sy ?Y)"
    using assms(1,3) by (auto simp: scaling_stage_nonempty)
  have "\<forall>x\<in>set (transform ?sy ?Y). length x = 1"
    by (auto simp: transform_def length_transform_row length_fit_params)
  then have "map (\<lambda>v. [v]) (concat (transform ?sy ?Y)) = transform ?sy ?Y"
    by (rule singleton_rows)
  moreover have "inverse_transform ?sy (transform ?sy ?Y) = ?Y"
    using assms(1,2) by (intro inverse_of_transform) auto
  ultimately show ?thesis
    by (simp add: y_test_original_def sd)
qed

theorem target_round_trip_witness:
  "[example_row 100, example_row 300] \<noteq> [] \<and>
   Close (example_row 100) \<noteq> None \<and> Close (example_row 300) \<noteq> None \<and>
   (\<exists>sd. scaling_stage [example_row 100, example_row 300] = Inr sd \<and>
      y_test_original sd (y_scaled sd) = [[Some 100], [Some 300]])"
proof -
  let ?d = "[example_row 100, example_row 300]"
  obtain sd where sd: "scaling_stage ?d = Inr sd"
    using scaling_stage_total [of ?d] by auto
  have c: "\<forall>r\<in>set ?d. Close r \<noteq> None" by (simp add: example_row_def)
  have "y_test_original sd (y_scaled sd) = map (\<lambda>r. [Close r]) ?d"
    using target_round_trip [OF _ c sd] by simp
  then show ?thesis using sd by (simp add: example_row_def)
qed

section \<open>The example tables\<close>

lemma example_day_simps:
  "Date (example_day c v) = Stamp 1367279999"
  "Open (example_day c v) = Some c"
  "High (example_day c v) = Some (c + 2)"
  "Low (example_day c v) = Some (c - 1)"
  "Close (example_day c v) = Some c"
  "Volume (example_day c v) = Some v"
  "Marketcap (example_day c v) = Some 1000"
  "Extra (example_day c v) = [Some ''Bitcoin'']"
  by (simp_all add: example_day_def)

lemma well_formed_example_day: "0 < c \<Longrightarrow> well_formed (example_day c v)"
  by (simp add: well_formed_def example_day_simps)

section \<open>The claims\<close>

text \<open>
  C1 (as amended).  For a table of \<open>N\<close> rows that has no missing cell, dates that
  parse and strictly positive Open and Close, and in which some Volume is strictly
  positive if some Volume is 0: the table after feature engineering has \<open>N\<close> rows, and the rows that the
  undefined-value filter keeps are exactly its rows from index 29 on.  That is
  \<open>N - 29\<close> rows, none when \<open>N \<le> 29\<close>.  The first row, whose PriceChange is undefined,
  is among the 29 removed.
\<close>

theorem df_clean_row_count:
  assumes "\<forall>r\<in>set table. well_formed r"
    and "Some 0 \<in> Volume ` set table \<longrightarrow> (\<exists>r\<in>set table. float_gt0 (Volume r))"
  shows "\<exists>full. engineered table = Inr full \<and> length full = length table \<and>
           df_clean table = Inr (drop 29 full) \<and>
           length (drop 29 full) = length table - 29 \<and>
           (length table \<le> 29 \<longrightarrow> df_clean table = Inr []) \<and>
           (table \<noteq> [] \<longrightarrow> PriceChange (full ! 0) = None)"
proof -
  let ?full = "engineer (add_calendar (impute_volume table))"
  have ok: "BadDate \<notin> Date ` set table" using assms(1) by (rule wf_no_bad_date)
  have len: "length ?full = length table"
    by (simp add: length_engineer length_add_calendar length_impute_volume)
  have f: "engineered table = Inr ?full" using ok by (rule engineered_ok)
  have c: "df_clean table = Inr (drop 29 ?full)"
    using assms by (rule df_clean_well_formed)
  have p: "table \<noteq> [] \<longrightarrow> PriceChange (?full ! 0) = None"
    by (simp add: engineer_derived length_add_calendar length_impute_volume)
  show ?thesis
    using f c p len by simp
qed

text \<open>Thirty well-formed rows with Volume 5 leave one usable row.\<close>

theorem df_clean_row_count_witness:
  "well_formed (example_day 100 5) \<and> length (replicate 30 (example_day 100 5)) = 30 \<and>
   (\<exists>full. engineered (replicate 30 (example_day 100 5)) = Inr full \<and> length full = 30 \<and>
      df_clean (replicate 30 (example_day 100 5)) = Inr (drop 29 full) \<and>
      length (drop 29 full) = 1)"
  using df_clean_row_count [of "replicate 30 (example_day 100 5)"]
  by (auto simp add: well_formed_example_day example_day_simps)

text \<open>
  C1 as stated fails on thirty well-formed rows whose Volume is 0 throughout: the
  imputed mean is NaN, every row has an undefined Volume, and no row is left, not one.
\<close>

theorem df_clean_row_count_counterexample:
  "well_formed (example_day 100 0) \<and>
   29 < length (replicate 30 (example_day 100 0)) \<and>
   df_clean (replicate 30 (example_day 100 0)) = Inr [] \<and>
   length ([] :: feature_row list) \<noteq> length (replicate 30 (example_day 100 0)) - 29"
proof -
  let ?t = "replicate 30 (example_day 100 0)"
  have "\<forall>r\<in>set ?t. Volume r = Some 0" by (simp add: example_day_simps)
  moreover have "BadDate \<notin> Date ` set ?t" by (simp add: example_day_simps)
  ultimately have "df_clean ?t = Inr []" by (rule df_clean_all_zero)
  then show ?thesis by (simp add: well_formed_example_day)
qed

text \<open>
  C2 (as amended).  No cell of the notebook binds \<open>checkpoint_callback\<close>, and it is no
  builtin.  Every run from top to bottom ends with an unhandled error.  A run whose
  cells before the training cell all complete ends at the training call, with
  \<open>NameError\<close> for \<open>checkpoint_callback\<close>; a run in which an earlier stage fails ends
  with the error of that stage and does not reach the training call.
\<close>

theorem checkpoint_callback_unbound:
  "''checkpoint_callback'' \<notin> set (bound_names notebook) \<union> set builtins \<and>
   (\<exists>e. run_notebook permutation table = Inl e) \<and>
   (\<forall>s. before_training permutation table = Inr s \<longrightarrow>
      run_notebook permutation table = Inl (NameError ''checkpoint_callback'')) \<and>
   (\<forall>e. before_training permutation table = Inl e \<longrightarrow>
      run_notebook permutation table = Inl e)"
proof -
  have "''checkpoint_callback'' \<notin> set (bound_names notebook) \<union> set builtins"
    by code_simp
  then show ?thesis
    using run_notebook_fails [of permutation table]
    by (simp add: run_notebook_reached run_notebook_not_reached)
qed

text \<open>Thirty-one well-formed rows reach the training cell.\<close>

theorem checkpoint_callback_unbound_witness:
  "(\<exists>s. before_training reversed_range (replicate 31 (example_day 100 5)) = Inr s) \<and>
   run_notebook reversed_range (replicate 31 (example_day 100 5)) =
     Inl (NameError ''checkpoint_callback'')"
proof -
  let ?t = "replicate 31 (example_day 100 5)"
  have wf: "\<forall>r\<in>set ?t. well_formed r" by (simp add: well_formed_example_day)
  have vol: "Some 0 \<in> Volume ` set ?t \<longrightarrow> (\<exists>r\<in>set ?t. float_gt0 (Volume r))"
    by (simp add: example_day_simps)
  have "df_clean ?t = Inr (drop 29 (engineer (add_calendar (impute_volume ?t))))"
    using wf vol by (rule df_clean_well_formed)
  moreover have "2 \<le> length (drop 29 (engineer (add_calendar (impute_volume ?t))))"
    by (simp add: length_engineer length_add_calendar length_impute_volume)
  ultimately obtain s where s: "before_training reversed_range ?t = Inr s"
    using before_training_ok by blast
  with checkpoint_callback_unbound [of reversed_range ?t] show ?thesis by blast
qed

text \<open>
  C2 as stated fails for a run that does not reach the training cell: on a table of one
  row the usable table is empty and the run ends in the scaler, with its \<open>ValueError\<close>.
\<close>

theorem checkpoint_callback_unbound_counterexample:
  "run_notebook reversed_range [example_day 100 5] = Inl empty_array_error \<and>
   empty_array_error \<noteq> NameError ''checkpoint_callback''"
proof -
  have "df_clean [example_day 100 5] = Inr []"
    by (rule df_clean_small) (simp_all add: example_day_simps)
  then have "run_notebook reversed_range [example_day 100 5] = Inl empty_array_error"
    by (rule run_notebook_degenerate)
  then show ?thesis by (simp add: empty_array_error_def)
qed

text \<open>
  C3.  After the imputation cell the table has as many rows as before; a row whose input
  Volume is 0 holds the arithmetic mean of the strictly positive Volume values of the
  same input table (one scalar for the whole table, NaN when no Volume is positive), and
  every other row keeps its Volume, a missing one included.
\<close>

theorem impute_volume_spec:
  assumes "i < length df"
  shows "length (impute_volume df) = length df \<and>
         Volume (impute_volume df ! i) =
           (if Volume (df ! i) = Some 0 then positive_volume_mean df else Volume (df ! i))"
  using assms by (simp add: impute_volume_def mean_volume_eq)

text \<open>Volumes 0, 10 and 30: the first row gets the mean 20.\<close>

theorem impute_volume_spec_witness:
  "(0::nat) < length [\<lparr>Date = NaT, Open = None, High = None, Low = None, Close = None,
        Volume = Some 0, Marketcap = None, Extra = []\<rparr>,
      \<lparr>Date = NaT, Open = None, High = None, Low = None, Close = None,
        Volume = Some 10, Marketcap = None, Extra = []\<rparr>,
      \<lparr>Date = NaT, Open = None, High = None, Low = None, Close = None,
        Volume = Some 30, Marketcap = None, Extra = []\<rparr>] \<and>
   Volume (impute_volume [\<lparr>Date = NaT, Open = None, High = None, Low = None, Close = None,
        Volume = Some 0, Marketcap = None, Extra = []\<rparr>,
      \<lparr>Date = NaT, Open = None, High = None, Low = None, Close = None,
        Volume = Some 10, Marketcap = None, Extra = []\<rparr>,
      \<lparr>Date = NaT, Open = None, High = None, Low = None, Close = None,
        Volume = Some 30, Marketcap = None, Extra = []\<rparr>] ! 0) = Some 20"
  using impute_volume_spec [of 0 "[\<lparr>Date = NaT, Open = None, High = None, Low = None,
        Close = None, Volume = Some 0, Marketcap = None, Extra = []\<rparr>,
      \<lparr>Date = NaT, Open = None, High = None, Low = None, Close = None,
        Volume = Some 10, Marketcap = None, Extra = []\<rparr>,
      \<lparr>Date = NaT, Open = None, High = None, Low = None, Close = None,
        Volume = Some 30, Marketcap = None, Extra = []\<rparr>]"]
  by (simp add: positive_volume_mean_def)



text \<open>
  C6 (as amended).  On a usable table of at least one row the feature scaler is fitted
  once, over all rows of the ten columns named in \<open>features\<close> (not over every derived
  column): its minima and maxima are those of these ten columns, and its factors come
  from them.  \<open>X_scaled\<close> is its transform of \<open>X\<close>, and the single-sample input
  \<open>X[-1:]\<close>, scaled with the same fitted scaler, is the last row of \<open>X_scaled\<close>.  The
  target scaler is a second scaler, fitted on Close.  The feature scaler is read by two
  statements only, the one that fits it and the one that scales the sample: no
  statement inverts with it.
\<close>

theorem feature_scaler_fit:
  assumes "d \<noteq> []"
  shows "\<exists>X sd. select_columns features d = Inr X \<and> scaling_stage d = Inr sd \<and>
           map (\<lambda>j. column j X) [0..<10] = feature_columns d \<and>
           data_min (scaler_X sd) = map nanmin (feature_columns d) \<and>
           data_max (scaler_X sd) = map nanmax (feature_columns d) \<and>
           scale (scaler_X sd) =
             map scale_of_range (map2 fsub (data_max (scaler_X sd)) (data_min (scaler_X sd))) \<and>
           X_scaled sd = transform (scaler_X sd) X \<and>
           sample_data_scaled sd X = [last (X_scaled sd)] \<and>
           scaler_y sd = fit_params 1 (map (\<lambda>r. [Close r]) d) \<and>
           filter (\<lambda>st. ''scaler_X'' \<in> set (fst st)) (concat notebook) =
             [([''scaler_X'', ''X''], [''X_scaled'']),
              ([''scaler_X'', ''sample_data''], [''sample_data_scaled''])]"
proof -
  have "map select_features d \<noteq> []" using assms by simp
  then have "transform (fit_params 10 (map select_features d))
        (drop (length (map select_features d) - 1) (map select_features d)) =
      [last (transform (fit_params 10 (map select_features d)) (map select_features d))]"
    by (rule sample_is_last_row)
  moreover have "filter (\<lambda>st. ''scaler_X'' \<in> set (fst st)) (concat notebook) =
             [([''scaler_X'', ''X''], [''X_scaled'']),
              ([''scaler_X'', ''sample_data''], [''sample_data_scaled''])]"
    by code_simp
  ultimately show ?thesis
    by (simp add: select_columns_features scaling_stage_nonempty [OF assms]
        fit_params_features selected_columns sample_data_scaled_def sample_data_def
        del: map_map upt.simps)
qed

text \<open>A usable table of two rows.\<close>

theorem feature_scaler_fit_witness:
  "[example_row 100, example_row 300] \<noteq> [] \<and>
   (\<exists>X sd. select_columns features [example_row 100, example_row 300] = Inr X \<and>
      scaling_stage [example_row 100, example_row 300] = Inr sd \<and>
      data_min (scaler_X sd) = map nanmin (feature_columns [example_row 100, example_row 300]) \<and>
      length (data_min (scaler_X sd)) = 10 \<and>
      sample_data_scaled sd X = [last (X_scaled sd)])"
proof -
  from feature_scaler_fit [of "[example_row 100, example_row 300]"]
  obtain X sd where
    "select_columns features [example_row 100, example_row 300] = Inr X"
    "scaling_stage [example_row 100, example_row 300] = Inr sd"
    "data_min (scaler_X sd) = map nanmin (feature_columns [example_row 100, example_row 300])"
    "sample_data_scaled sd X = [last (X_scaled sd)]"
    by auto
  moreover from this
  have "length (data_min (scaler_X sd)) = 10" by (simp add: feature_columns_def)
  ultimately show ?thesis by blast
qed

text \<open>
  C6 as stated fails: MA30 and PriceChange are derived columns of the usable table that
  are not in \<open>features\<close>, and changing them changes nothing in the scaling stage.
\<close>

theorem feature_scaler_fit_counterexample:
  "''MA30'' \<notin> set features \<and> ''PriceChange'' \<notin> set features \<and>
   MA30 ((example_row 100)\<lparr>MA30 := Some 1\<rparr>) \<noteq> MA30 (example_row 100) \<and>
   PriceChange ((example_row 100)\<lparr>PriceChange := Some 7\<rparr>) \<noteq> PriceChange (example_row 100) \<and>
   scaling_stage [(example_row 100)\<lparr>MA30 := Some 1\<rparr>] = scaling_stage [example_row 100] \<and>
   scaling_stage [(example_row 100)\<lparr>PriceChange := Some 7\<rparr>] = scaling_stage [example_row 100]"
proof -
  have "''MA30'' \<notin> set features \<and> ''PriceChange'' \<notin> set features"
    by (simp add: features_def)
  then show ?thesis
    by (simp add: example_row_def scaling_stage_def select_columns_features
        select_features_def)
qed

text \<open>
  C7.  For every row \<open>t\<close> of the table, MA7 is undefined when \<open>t < 6\<close> and is otherwise
  the arithmetic mean of Close over the 7 rows ending at \<open>t\<close> inclusive; MA30 is
  undefined when \<open>t < 29\<close> and is otherwise the arithmetic mean of Close over the 30 rows
  ending at \<open>t\<close> inclusive.  (The mean of a window with a missing Close is undefined.)
\<close>

theorem moving_average_spec:
  assumes "t < length df"
  shows "MA7 (engineer df ! t) =
           (if t < 6 then None else arithmetic_mean (map Close (trailing_window 7 df t))) \<and>
         MA30 (engineer df ! t) =
           (if t < 29 then None else arithmetic_mean (map Close (trailing_window 30 df t)))"
  using assms by (simp add: MA7_engineer MA30_engineer)

text \<open>Closing prices 1 to 7: the seventh row has MA7 = 4 and no MA30.\<close>

theorem moving_average_spec_witness:
  "(6::nat) < length example_week \<and>
   map Close example_week = [Some 1, Some 2, Some 3, Some 4, Some 5, Some 6, Some 7] \<and>
   MA7 (engineer example_week ! 6) = Some 4 \<and>
   MA30 (engineer example_week ! 6) = None"
proof -
  have len: "(6::nat) < length example_week"
    by (simp add: example_week_def length_add_calendar)
  have c: "map Close example_week = [Some 1, Some 2, Some 3, Some 4, Some 5, Some 6, Some 7]"
    by (simp add: example_week_def add_calendar_frame example_day_simps)
  then have "trailing_window 7 (map Close example_week) 6 =
      [Some 1, Some 2, Some 3, Some 4, Some 5, Some 6, Some 7]"
    by (simp add: trailing_window_def)
  then have cl: "map Close (trailing_window 7 example_week 6) =
      [Some 1, Some 2, Some 3, Some 4, Some 5, Some 6, Some 7]"
    by (simp only: trailing_window_map)
  show ?thesis
    using moving_average_spec [OF len] len c by (simp add: cl arithmetic_mean_def)
qed

text \<open>
  C8.  When no Date text is malformed (the one case in which \<^verbatim>\<open>pd.to_datetime\<close>
  raises), the cleaning stage returns a table with exactly the rows of its input, missing
  values or not: the row count and the columns Open, High, Low, Close and Marketcap (and
  every further column of the file) are those of the input.  Only Volume is rewritten,
  Date is parsed, and the calendar columns are added.
\<close>

theorem clean_frame:
  assumes "BadDate \<notin> Date ` set df"
  shows "\<exists>out. clean df = Inr out \<and> length out = length df \<and>
           map Open out = map Open df \<and> map High out = map High df \<and>
           map Low out = map Low df \<and> map Close out = map Close df \<and>
           map Marketcap out = map Marketcap df \<and> map Extra out = map Extra df"
  using assms
  by (simp add: clean_ok length_add_calendar length_impute_volume add_calendar_frame
      impute_volume_frame)

text \<open>Two rows with missing cells stay two rows.\<close>

theorem clean_frame_witness:
  "BadDate \<notin> Date ` set [\<lparr>Date = NaT, Open = None, High = Some 2, Low = Some 1,
        Close = None, Volume = Some 0, Marketcap = None, Extra = [None]\<rparr>,
      \<lparr>Date = Stamp 0, Open = Some 1, High = Some 5, Low = Some 1, Close = Some 3,
        Volume = None, Marketcap = Some 7, Extra = [Some ''BTC'']\<rparr>] \<and>
   (\<exists>out. clean [\<lparr>Date = NaT, Open = None, High = Some 2, Low = Some 1,
        Close = None, Volume = Some 0, Marketcap = None, Extra = [None]\<rparr>,
      \<lparr>Date = Stamp 0, Open = Some 1, High = Some 5, Low = Some 1, Close = Some 3,
        Volume = None, Marketcap = Some 7, Extra = [Some ''BTC'']\<rparr>] = Inr out \<and>
      length out = 2 \<and> map Close out = [None, Some 3] \<and>
      map Marketcap out = [None, Some 7])"
  using clean_frame [of "[\<lparr>Date = NaT, Open = None, High = Some 2, Low = Some 1,
        Close = None, Volume = Some 0, Marketcap = None, Extra = [None]\<rparr>,
      \<lparr>Date = Stamp 0, Open = Some 1, High = Some 5, Low = Some 1, Close = Some 3,
        Volume = None, Marketcap = Some 7, Extra = [Some ''BTC'']\<rparr>]"]
  by auto

text \<open>
  C9 (as amended).  For a table of fewer than 30 rows whose dates parse, the usable table
  is empty.  No cell checks for it: the stages before scaling return the empty table
  without an error, the scaling stage is entered with it, and the run ends there, with
  the scaler's refusal of a matrix of no rows.
\<close>

theorem degenerate_input:
  assumes "length table < 30" "BadDate \<notin> Date ` set table"
  shows "df_clean table = Inr [] \<and> scaling_stage [] = Inl empty_array_error \<and>
         run_notebook permutation table = Inl empty_array_error"
proof -
  have "df_clean table = Inr []"
    using assms by (simp add: df_clean_small)
  then show ?thesis
    by (simp add: scaling_stage_empty run_notebook_degenerate)
qed

text \<open>Twenty-nine well-formed rows.\<close>

theorem degenerate_input_witness:
  "length (replicate 29 (example_day 100 5)) < 30 \<and>
   df_clean (replicate 29 (example_day 100 5)) = Inr [] \<and>
   run_notebook reversed_range (replicate 29 (example_day 100 5)) = Inl empty_array_error"
  using degenerate_input [of "replicate 29 (example_day 100 5)" reversed_range]
  by (simp add: example_day_simps)

text \<open>
  C9 as stated fails: on a table of one row nothing fails before the scaling stage;
  the empty usable table is passed on and it is the scaler that raises.
\<close>

theorem degenerate_input_counterexample:
  "length [example_day 100 5] < 30 \<and>
   df_clean [example_day 100 5] = Inr [] \<and>
   scaling_stage [] = Inl empty_array_error \<and>
   run_notebook reversed_range [example_day 100 5] = Inl empty_array_error"
proof -
  have "df_clean [example_day 100 5] = Inr []"
    by (rule df_clean_small) (simp_all add: example_day_simps)
  then show ?thesis
    by (simp add: scaling_stage_empty run_notebook_degenerate)
qed

text \<open>
  C10.  In a table in which every Volume is 0 no Volume is strictly positive and the
  imputation mean is NaN.  The imputation, which has no failing case, keeps the row count
  and writes NaN into the Volume of every row; if the dates parse, the row filter then
  discards every row.
\<close>

theorem all_zero_volume:
  assumes "\<forall>r\<in>set table. Volume r = Some 0"
  shows "non_zero_volumes table = [] \<and> mean_volume table = None \<and>
         length (impute_volume table) = length table \<and>
         (\<forall>r\<in>set (impute_volume table). Volume r = None) \<and>
         (BadDate \<notin> Date ` set table \<longrightarrow> df_clean table = Inr [])"
proof -
  have "non_zero_volumes table = []"
    using assms by (simp add: non_zero_volumes_def filter_empty_conv)
  then show ?thesis
    using assms
    by (simp add: mean_volume_all_zero length_impute_volume impute_all_zero df_clean_all_zero)
qed

text \<open>Thirty well-formed rows with Volume 0.\<close>

theorem all_zero_volume_witness:
  "Volume (example_day 100 0) = Some 0 \<and>
   mean_volume (replicate 30 (example_day 100 0)) = None \<and>
   map Volume (impute_volume (replicate 30 (example_day 100 0))) = replicate 30 None \<and>
   df_clean (replicate 30 (example_day 100 0)) = Inr []"
proof -
  let ?t = "replicate 30 (example_day 100 0)"
  have z: "\<forall>r\<in>set ?t. Volume r = Some 0" by (simp add: example_day_simps)
  have b: "BadDate \<notin> Date ` set ?t" by (simp add: example_day_simps)
  from all_zero_volume [OF z] b
  have m: "mean_volume ?t = None" and d: "df_clean ?t = Inr []" by simp_all
  have "map Volume (impute_volume ?t) = replicate 30 None"
    by (simp add: impute_volume_def m example_day_simps)
  with m d show ?thesis by (simp add: example_day_simps)
qed

end
